theory Spec2Isabelle
  imports Complex_Main
begin

section \<open>JavaScript numbers\<close>

text \<open>
  A JavaScript number is modelled as an exact real number, or one of the three special
  values \<open>NaN\<close>, \<open>+Infinity\<close>, \<open>-Infinity\<close>. The special values follow the rules of
  ECMAScript arithmetic (they are what an Invalid Date and a division by zero produce).
  Rounding to 53 bits, overflow and the sign of zero are not modelled: every finite
  operation is exact.
\<close>

datatype jsnum = Fin real | NaN | PosInf | NegInf


definition inf_of :: "real \<Rightarrow> jsnum" where
  "inf_of s = (if 0 \<le> s then PosInf else NegInf)"

fun jsign :: "jsnum \<Rightarrow> real" where
  "jsign (Fin x) = sgn x"
| "jsign PosInf = 1"
| "jsign NegInf = - 1"
| "jsign NaN = 0"

fun jneg :: "jsnum \<Rightarrow> jsnum" where
  "jneg (Fin x) = Fin (- x)"
| "jneg NaN = NaN"
| "jneg PosInf = NegInf"
| "jneg NegInf = PosInf"

fun jadd :: "jsnum \<Rightarrow> jsnum \<Rightarrow> jsnum" where
  "jadd (Fin x) (Fin y) = Fin (x + y)"
| "jadd NaN _ = NaN"
| "jadd _ NaN = NaN"
| "jadd PosInf NegInf = NaN"
| "jadd NegInf PosInf = NaN"
| "jadd PosInf _ = PosInf"
| "jadd _ PosInf = PosInf"
| "jadd NegInf _ = NegInf"
| "jadd _ NegInf = NegInf"

definition jsub :: "jsnum \<Rightarrow> jsnum \<Rightarrow> jsnum" where
  "jsub x y = jadd x (jneg y)"

fun jmul :: "jsnum \<Rightarrow> jsnum \<Rightarrow> jsnum" where
  "jmul (Fin x) (Fin y) = Fin (x * y)"
| "jmul NaN _ = NaN"
| "jmul _ NaN = NaN"
| "jmul x y = (if jsign x * jsign y = 0 then NaN else inf_of (jsign x * jsign y))"

fun jdiv :: "jsnum \<Rightarrow> jsnum \<Rightarrow> jsnum" where
  "jdiv (Fin x) (Fin y) =
     (if y \<noteq> 0 then Fin (x / y) else if x = 0 then NaN else inf_of x)"
| "jdiv NaN _ = NaN"
| "jdiv _ NaN = NaN"
| "jdiv (Fin x) _ = Fin 0"
| "jdiv x (Fin y) = inf_of (jsign x * (if 0 \<le> y then 1 else - 1))"
| "jdiv _ _ = NaN"

text \<open>Rounding towards zero, as the remainder operator \<open>%\<close> uses it.\<close>

definition trunc :: "real \<Rightarrow> int" where
  "trunc x = (if 0 \<le> x then \<lfloor>x\<rfloor> else \<lceil>x\<rceil>)"

fun jmod :: "jsnum \<Rightarrow> jsnum \<Rightarrow> jsnum" where
  "jmod (Fin x) (Fin y) = (if y = 0 then NaN else Fin (x - y * of_int (trunc (x / y))))"
| "jmod NaN _ = NaN"
| "jmod _ NaN = NaN"
| "jmod (Fin x) _ = Fin x"
| "jmod _ _ = NaN"

fun jlt :: "jsnum \<Rightarrow> jsnum \<Rightarrow> bool" where
  "jlt (Fin x) (Fin y) = (x < y)"
| "jlt NaN _ = False"
| "jlt _ NaN = False"
| "jlt NegInf NegInf = False"
| "jlt NegInf _ = True"
| "jlt _ NegInf = False"
| "jlt PosInf _ = False"
| "jlt _ PosInf = True"

text \<open>Strict equality \<open>===\<close> on numbers: \<open>NaN\<close> equals nothing.\<close>

definition jeq :: "jsnum \<Rightarrow> jsnum \<Rightarrow> bool" where
  "jeq x y = (x \<noteq> NaN \<and> x = y)"

text \<open>Truthiness of a number, and \<open>x || y\<close>.\<close>

fun truthy :: "jsnum \<Rightarrow> bool" where
  "truthy (Fin x) = (x \<noteq> 0)"
| "truthy NaN = False"
| "truthy _ = True"

definition jor :: "jsnum \<Rightarrow> jsnum \<Rightarrow> jsnum" where
  "jor x y = (if truthy x then x else y)"

subsection \<open>The Math object\<close>

definition Math_PI :: jsnum where
  "Math_PI = Fin pi"

fun Math_sin :: "jsnum \<Rightarrow> jsnum" where
  "Math_sin (Fin x) = Fin (sin x)"
| "Math_sin _ = NaN"

fun Math_cos :: "jsnum \<Rightarrow> jsnum" where
  "Math_cos (Fin x) = Fin (cos x)"
| "Math_cos _ = NaN"

fun Math_sqrt :: "jsnum \<Rightarrow> jsnum" where
  "Math_sqrt (Fin x) = (if x < 0 then NaN else Fin (sqrt x))"
| "Math_sqrt PosInf = PosInf"
| "Math_sqrt _ = NaN"

definition atan2 :: "real \<Rightarrow> real \<Rightarrow> real" where
  "atan2 y x =
     (if 0 < x then arctan (y / x)
      else if x < 0 then (if 0 \<le> y then arctan (y / x) + pi else arctan (y / x) - pi)
      else if 0 < y then pi / 2
      else if y < 0 then - (pi / 2)
      else 0)"

fun Math_atan2 :: "jsnum \<Rightarrow> jsnum \<Rightarrow> jsnum" where
  "Math_atan2 (Fin y) (Fin x) = Fin (atan2 y x)"
| "Math_atan2 NaN _ = NaN"
| "Math_atan2 _ NaN = NaN"
| "Math_atan2 PosInf PosInf = Fin (pi / 4)"
| "Math_atan2 PosInf NegInf = Fin (3 * pi / 4)"
| "Math_atan2 PosInf (Fin x) = Fin (pi / 2)"
| "Math_atan2 NegInf PosInf = Fin (- (pi / 4))"
| "Math_atan2 NegInf NegInf = Fin (- (3 * pi / 4))"
| "Math_atan2 NegInf (Fin x) = Fin (- (pi / 2))"
| "Math_atan2 (Fin y) PosInf = Fin 0"
| "Math_atan2 (Fin y) NegInf = (if 0 \<le> y then Fin pi else Fin (- pi))"

definition Math_ceil :: "real \<Rightarrow> int" where
  "Math_ceil x = \<lceil>x\<rceil>"

text \<open>
  Conversion of a loop index to a string, as a template literal does it for a
  non-negative integer: its decimal digits.
\<close>

fun numToString :: "nat \<Rightarrow> string" where
  "numToString n =
     (if n < 10 then [char_of (48 + n)]
      else numToString (n div 10) @ [char_of (48 + n mod 10)])"

declare numToString.simps [simp del]

section \<open>The Date object\<close>

text \<open>
  A Date holds a time value: an integral number of milliseconds since the epoch, or
  \<open>NaN\<close> for an Invalid Date (\<open>None\<close> here). The local-time getters add the offset of the
  local time zone in force at that instant (\<open>localTZA\<close>, in milliseconds) before they
  split the time value, as ECMAScript's LocalTime, HourFromTime, MinFromTime and
  SecFromTime do. On an Invalid Date every getter returns \<open>NaN\<close>.
\<close>

record Date =
  timeValue :: "int option"
  localTZA :: int

definition getTime :: "Date \<Rightarrow> jsnum" where
  "getTime d = (case timeValue d of None \<Rightarrow> NaN | Some t \<Rightarrow> Fin (of_int t))"

definition getHours :: "Date \<Rightarrow> jsnum" where
  "getHours d =
     (case timeValue d of None \<Rightarrow> NaN
      | Some t \<Rightarrow> Fin (of_int (((t + localTZA d) div 3600000) mod 24)))"

definition getMinutes :: "Date \<Rightarrow> jsnum" where
  "getMinutes d =
     (case timeValue d of None \<Rightarrow> NaN
      | Some t \<Rightarrow> Fin (of_int (((t + localTZA d) div 60000) mod 60)))"

definition getSeconds :: "Date \<Rightarrow> jsnum" where
  "getSeconds d =
     (case timeValue d of None \<Rightarrow> NaN
      | Some t \<Rightarrow> Fin (of_int (((t + localTZA d) div 1000) mod 60)))"

text \<open>
  \<open>advancedBy m now later\<close>: the time value of \<open>later\<close> is that of \<open>now\<close> advanced by
  \<open>m\<close> minutes (an Invalid Date stays invalid). Nothing is said of the local offset of
  \<open>later\<close>: it is the one in force at the later instant, which a change to or from
  summer time makes differ from that of \<open>now\<close>.
\<close>

definition advancedBy :: "real \<Rightarrow> Date \<Rightarrow> Date \<Rightarrow> bool" where
  "advancedBy m now later =
     (timeValue later = map_option (\<lambda>t. t + \<lfloor>m * 60000\<rfloor>) (timeValue now))"

section \<open>Data model (types.ts)\<close>

record Route =
  route_id :: string
  route_short_name :: string
  route_long_name :: string
  route_type :: string
  agency_id :: string

record LiveVehicle =
  vehicle_id :: string
  trip_id :: string
  vehicle_route_id :: string
  latitude :: jsnum
  longitude :: jsnum
  timestamp :: jsnum
  direction_id :: nat
  heading :: "jsnum option"

text \<open>
  The field \<open>route_id\<close> of a vehicle is named \<open>vehicle_route_id\<close>, the optional
  \<open>heading\<close> is an option, and the optional fields that the generator never sets are
  left out.

  A route shape is a list of (latitude, longitude) pairs. Its coordinates are finite
  numbers, so they are reals here; everything computed from them and from the clock is
  a \<open>jsnum\<close>.
\<close>

type_synonym shape = "(real \<times> real) list"

section \<open>Geometry (utils.ts)\<close>

text \<open>
  The haversine distance. With exact numbers the term \<open>a\<close> lies between 0 and 1, both
  square roots are taken of non-negative numbers and the distance is a number. With
  rounded arithmetic \<open>a\<close> can exceed 1 in the last place (for nearly antipodal points);
  then \<^verbatim>\<open>Math.sqrt(1 - a)\<close> is \<open>NaN\<close>, and so are the distance and every total that
  includes it. The properties of the sampling below therefore do not rely on the
  distances being numbers: they take it as a hypothesis on the computed values.
\<close>

definition deg2rad :: "jsnum \<Rightarrow> jsnum" where
  "deg2rad deg = jmul deg (jdiv Math_PI (Fin 180))"

definition calculateDistance :: "jsnum \<Rightarrow> jsnum \<Rightarrow> jsnum \<Rightarrow> jsnum \<Rightarrow> jsnum" where
  "calculateDistance lat1 lon1 lat2 lon2 =
     (let R = Fin 6371;
          dLat = deg2rad (jsub lat2 lat1);
          dLon = deg2rad (jsub lon2 lon1);
          a = jadd
                (jmul (Math_sin (jdiv dLat (Fin 2))) (Math_sin (jdiv dLat (Fin 2))))
                (jmul
                  (jmul
                    (jmul (Math_cos (deg2rad lat1)) (Math_cos (deg2rad lat2)))
                    (Math_sin (jdiv dLon (Fin 2))))
                  (Math_sin (jdiv dLon (Fin 2))));
          c = jmul (Fin 2) (Math_atan2 (Math_sqrt a) (Math_sqrt (jsub (Fin 1) a)));
          d = jmul R c
      in d)"

text \<open>The private copy of the same function in transportService.ts.\<close>

definition calculateDistance_transportService ::
    "jsnum \<Rightarrow> jsnum \<Rightarrow> jsnum \<Rightarrow> jsnum \<Rightarrow> jsnum" where
  "calculateDistance_transportService lat1 lon1 lat2 lon2 =
     (let R = Fin 6371;
          dLat = jdiv (jmul (jsub lat2 lat1) Math_PI) (Fin 180);
          dLon = jdiv (jmul (jsub lon2 lon1) Math_PI) (Fin 180);
          a = jadd
                (jmul (Math_sin (jdiv dLat (Fin 2))) (Math_sin (jdiv dLat (Fin 2))))
                (jmul
                  (jmul
                    (jmul (Math_cos (jdiv (jmul lat1 Math_PI) (Fin 180)))
                          (Math_cos (jdiv (jmul lat2 Math_PI) (Fin 180))))
                    (Math_sin (jdiv dLon (Fin 2))))
                  (Math_sin (jdiv dLon (Fin 2))));
          c = jmul (Fin 2) (Math_atan2 (Math_sqrt a) (Math_sqrt (jsub (Fin 1) a)))
      in jmul R c)"

section \<open>The vehicle position generator\<close>

subsection \<open>Code shared by both copies\<close>

text \<open>
  The loop that accumulates the path length (MapScreen.tsx lines 88-96,
  transportService.ts lines 140-149): the state is the array \<open>cumulative\<close> and the
  running total; \<open>distanceFn\<close> is the distance function of the file at hand.
\<close>

definition cumulativeDistances ::
    "(jsnum \<Rightarrow> jsnum \<Rightarrow> jsnum \<Rightarrow> jsnum \<Rightarrow> jsnum) \<Rightarrow> shape \<Rightarrow> jsnum list \<times> jsnum" where
  "cumulativeDistances distanceFn shapePoints =
     foldl
       (\<lambda>(cumulative, total) i.
          let d = distanceFn (Fin (fst (shapePoints ! (i - 1)))) (Fin (snd (shapePoints ! (i - 1))))
                       (Fin (fst (shapePoints ! i))) (Fin (snd (shapePoints ! i)));
              total' = jadd total d
          in (cumulative @ [total'], total'))
       ([Fin 0], Fin 0)
       [1 ..< length shapePoints]"

text \<open>
  The segment search
  \<^verbatim>\<open>while (i < cumulative.length - 1 && cumulative[i + 1] < targetDist) i++\<close>,
  started at \<open>segIndex\<close>; it returns the final index.
\<close>

function findSegment :: "jsnum list \<Rightarrow> jsnum \<Rightarrow> nat \<Rightarrow> nat" where
  "findSegment cumulative targetDist segIndex =
     (if segIndex + 1 < length cumulative \<and> jlt (cumulative ! (segIndex + 1)) targetDist
      then findSegment cumulative targetDist (segIndex + 1)
      else segIndex)"
  by pat_completeness auto
termination
  by (relation "measure (\<lambda>(cumulative, targetDist, segIndex). length cumulative - segIndex)") auto

declare findSegment.simps [simp del]

text \<open>
  The normalisation of a progress value into the unit interval, written
  \<^verbatim>\<open>((x % 1) + 1) % 1\<close> in both copies (MapScreen.tsx line 109,
  transportService.ts line 160).
\<close>

definition wrapFraction :: "jsnum \<Rightarrow> jsnum" where
  "wrapFraction x = jmod (jadd (jmod x (Fin 1)) (Fin 1)) (Fin 1)"

subsection \<open>components/MapScreen.tsx\<close>

definition HEADWAY_MIN :: real where
  "HEADWAY_MIN = 10"

definition TRIP_MIN :: real where
  "TRIP_MIN = 60"

definition busesPerDirection :: nat where
  "busesPerDirection = nat (max 1 (Math_ceil (TRIP_MIN / HEADWAY_MIN)))"

text \<open>
  The closure \<open>makeVehicleAtFraction\<close>, with the variables it captures as its first
  parameters; it returns the vehicle that the source pushes onto \<open>vehicles\<close>.
\<close>

definition makeVehicleAtFraction ::
    "Route \<Rightarrow> shape \<Rightarrow> jsnum list \<Rightarrow> jsnum \<Rightarrow> Date \<Rightarrow> jsnum \<Rightarrow> nat \<Rightarrow> nat \<Rightarrow> LiveVehicle" where
  "makeVehicleAtFraction route shapePoints cumulative total' now fraction index dir =
     (let f = wrapFraction fraction;
          targetDist = jmul f total';
          segIndex = findSegment cumulative targetDist 0;
          segStart = cumulative ! segIndex;
          segEnd = cumulative ! (min (segIndex + 1) (length cumulative - 1));
          segFraction = (if jeq segEnd segStart then Fin 0
                         else jdiv (jsub targetDist segStart) (jsub segEnd segStart));
          lat1 = fst (shapePoints ! segIndex);
          lon1 = snd (shapePoints ! segIndex);
          lat2 = fst (shapePoints ! (min (segIndex + 1) (length shapePoints - 1)));
          lon2 = snd (shapePoints ! (min (segIndex + 1) (length shapePoints - 1)));
          lat = jadd (Fin lat1) (jmul (jsub (Fin lat2) (Fin lat1)) segFraction);
          lon = jadd (Fin lon1) (jmul (jsub (Fin lon2) (Fin lon1)) segFraction);
          id = ''SIM-'' @ route_id route @ ''-'' @ numToString dir @ ''-'' @ numToString index
      in \<lparr> vehicle_id = id,
           trip_id = route_id route @ ''-sim-'' @ numToString dir @ ''-'' @ numToString index,
           vehicle_route_id = route_id route,
           latitude = lat,
           longitude = lon,
           timestamp = getTime now,
           direction_id = dir,
           heading = None \<rparr>)"

text \<open>
  The generator. Its third parameter is optional in the source and defaults to
  \<open>new Date()\<close>: \<open>clock\<close> is the Date that the ambient clock would give, read only
  when the argument is absent. The two loops push onto \<open>vehicles\<close> in turn, so the
  returned array is the outbound vehicles followed by the inbound ones. The source's
  variable \<open>total\<close> is written \<open>total'\<close>; a path is never \<open>null\<close> here, so the
  test \<^verbatim>\<open>!shapePoints\<close> has no counterpart.
\<close>

definition generateSimulatedVehiclesForRoute_MapScreen ::
    "Date \<Rightarrow> Route \<Rightarrow> shape \<Rightarrow> Date option \<Rightarrow> LiveVehicle list" where
  "generateSimulatedVehiclesForRoute_MapScreen clock route shapePoints nowArg =
     (let now = (case nowArg of None \<Rightarrow> clock | Some d \<Rightarrow> d) in
      if length shapePoints < 2 then []
      else
        let cumulative = fst (cumulativeDistances calculateDistance shapePoints);
            total' = snd (cumulativeDistances calculateDistance shapePoints)
        in
        if jeq total' (Fin 0) then []
        else
          let minutesSinceMidnight =
                jadd (jadd (jmul (getHours now) (Fin 60)) (getMinutes now))
                     (jdiv (getSeconds now) (Fin 60));
              outbound =
                map (\<lambda>i. let startOffset = jmul (Fin (real i)) (Fin HEADWAY_MIN);
                              prog = jdiv (jsub minutesSinceMidnight startOffset) (Fin TRIP_MIN)
                          in makeVehicleAtFraction route shapePoints cumulative total' now prog i 0)
                    [0 ..< busesPerDirection];
              inbound =
                map (\<lambda>i. let startOffset = jmul (Fin (real i)) (Fin HEADWAY_MIN);
                              prog = jdiv (jsub minutesSinceMidnight startOffset) (Fin TRIP_MIN)
                          in makeVehicleAtFraction route shapePoints cumulative total' now
                               (jsub (Fin 1) prog) i 1)
                    [0 ..< busesPerDirection]
          in outbound @ inbound)"

subsection \<open>services/transportService.ts\<close>

definition HEADWAY_MIN_transportService :: real where
  "HEADWAY_MIN_transportService = 15"

definition TRIP_DURATION_MIN :: real where
  "TRIP_DURATION_MIN = 45"

definition busesPerDir :: nat where
  "busesPerDir = nat (Math_ceil (TRIP_DURATION_MIN / HEADWAY_MIN_transportService))"

definition placeVehicle ::
    "Route \<Rightarrow> shape \<Rightarrow> jsnum list \<Rightarrow> jsnum \<Rightarrow> Date \<Rightarrow> jsnum \<Rightarrow> nat \<Rightarrow> nat \<Rightarrow> LiveVehicle" where
  "placeVehicle route shapePoints cumulative totalDistance now pct dir idx =
     (let p = wrapFraction pct;
          targetDist = jmul p totalDistance;
          i = findSegment cumulative targetDist 0;
          segStart = cumulative ! i;
          segEnd = cumulative ! (min (i + 1) (length cumulative - 1));
          segPct = jdiv (jsub targetDist segStart) (jor (jsub segEnd segStart) (Fin 1));
          lat1 = fst (shapePoints ! i);
          lon1 = snd (shapePoints ! i);
          lat2 = fst (shapePoints ! (min (i + 1) (length shapePoints - 1)));
          lon2 = snd (shapePoints ! (min (i + 1) (length shapePoints - 1)));
          lat = jadd (Fin lat1) (jmul (jsub (Fin lat2) (Fin lat1)) segPct);
          lon = jadd (Fin lon1) (jmul (jsub (Fin lon2) (Fin lon1)) segPct)
      in \<lparr> vehicle_id = ''GTFS-'' @ route_id route @ ''-'' @ numToString dir @ ''-'' @ numToString idx,
           trip_id = ''TRIP-'' @ route_id route @ ''-'' @ numToString idx,
           vehicle_route_id = route_id route,
           latitude = lat,
           longitude = lon,
           timestamp = getTime now,
           direction_id = dir,
           heading = Some (Fin 0) \<rparr>)"

definition generateSimulatedVehiclesForRoute_transportService ::
    "Route \<Rightarrow> shape \<Rightarrow> Date \<Rightarrow> LiveVehicle list" where
  "generateSimulatedVehiclesForRoute_transportService route shapePoints now =
     (if length shapePoints < 2 then []
      else
        let cumulative = fst (cumulativeDistances calculateDistance_transportService shapePoints);
            totalDistance = snd (cumulativeDistances calculateDistance_transportService shapePoints);
            timeVal =
              jadd (jadd (jmul (getHours now) (Fin 60)) (getMinutes now))
                   (jdiv (getSeconds now) (Fin 60));
            outbound =
              map (\<lambda>i. let offset = jmul (Fin (real i)) (Fin HEADWAY_MIN_transportService);
                            prog = jdiv (jsub timeVal offset) (Fin TRIP_DURATION_MIN)
                        in placeVehicle route shapePoints cumulative totalDistance now prog 0 i)
                  [0 ..< busesPerDir];
            inbound =
              map (\<lambda>i. let offset = jadd (jmul (Fin (real i)) (Fin HEADWAY_MIN_transportService))
                                         (jdiv (Fin HEADWAY_MIN_transportService) (Fin 2));
                            prog = jsub (Fin 1) (jdiv (jsub timeVal offset) (Fin TRIP_DURATION_MIN))
                        in placeVehicle route shapePoints cumulative totalDistance now prog 1 i)
                  [0 ..< busesPerDir]
        in outbound @ inbound)"

section \<open>The position interpolator (SmoothMarker, components/MapScreen.tsx)\<close>

record LatLng =
  lat :: jsnum
  lng :: jsnum

text \<open>
  The marker: \<open>latlng\<close> is the displayed position that Leaflet's \<open>L.Marker\<close> holds
  (\<open>getLatLng\<close>/\<open>setLatLng\<close>); the other fields are the private fields of the class.
  Leaflet itself is not part of the repository: its conversion \<open>L.latLng\<close> is the
  identity here, and its rejection of \<open>NaN\<close> coordinates is not modelled.
\<close>

record SmoothMarker =
  latlng :: LatLng
  targetLatLng :: LatLng
  startLatLng :: LatLng
  startTime :: jsnum
  duration :: jsnum
  animationFrameId :: "nat option"

text \<open>
  The browser's frame scheduler: the handles of the callbacks that are pending, and
  the next handle \<open>requestAnimationFrame\<close> will return (handles are positive).
\<close>

record World =
  marker :: SmoothMarker
  pendingFrames :: "nat list"
  nextFrameId :: nat

definition cancelAnimationFrame :: "nat \<Rightarrow> World \<Rightarrow> World" where
  "cancelAnimationFrame h w = w\<lparr>pendingFrames := removeAll h (pendingFrames w)\<rparr>"

definition requestAnimationFrame :: "World \<Rightarrow> nat \<times> World" where
  "requestAnimationFrame w =
     (nextFrameId w,
      w\<lparr>pendingFrames := pendingFrames w @ [nextFrameId w], nextFrameId := nextFrameId w + 1\<rparr>)"

text \<open>\<open>_animate\<close>; \<open>perfNow\<close> is the value that \<open>performance.now()\<close> returns in it.\<close>

definition animate :: "jsnum \<Rightarrow> World \<Rightarrow> World" where
  "animate perfNow w =
     (let m = marker w;
          elapsed = jsub perfNow (startTime m);
          q = jdiv elapsed (duration m);
          progress = (if q = NaN then NaN else if jlt q (Fin 1) then q else Fin 1);
          lat' = jadd (lat (startLatLng m))
                      (jmul (jsub (lat (targetLatLng m)) (lat (startLatLng m))) progress);
          lng' = jadd (lng (startLatLng m))
                      (jmul (jsub (lng (targetLatLng m)) (lng (startLatLng m))) progress);
          w1 = w\<lparr>marker := m\<lparr>latlng := \<lparr>lat = lat', lng = lng'\<rparr>\<rparr>\<rparr>
      in if jlt progress (Fin 1)
         then (let (h, w2) = requestAnimationFrame w1
               in w2\<lparr>marker := (marker w2)\<lparr>animationFrameId := Some h\<rparr>\<rparr>)
         else w1\<lparr>marker := (marker w1)\<lparr>animationFrameId := None,
                                         latlng := targetLatLng (marker w1)\<rparr>\<rparr>)"

text \<open>
  \<open>setLatLngSmooth\<close>. \<open>distanceTo\<close> is Leaflet's \<open>LatLng.distanceTo\<close> (metres), which is
  not part of this repository and is a parameter here; \<open>t0\<close> and \<open>t1\<close> are the readings
  of \<open>performance.now()\<close> in this method and in the call of \<open>_animate\<close> it makes.
\<close>

definition setLatLngSmooth ::
    "(LatLng \<Rightarrow> LatLng \<Rightarrow> jsnum) \<Rightarrow> jsnum \<Rightarrow> jsnum \<Rightarrow> LatLng \<Rightarrow> jsnum \<Rightarrow> World \<Rightarrow> World" where
  "setLatLngSmooth distanceTo t0 t1 target dur w =
     (let w1 = (case animationFrameId (marker w) of
                  None \<Rightarrow> w
                | Some h \<Rightarrow> if h \<noteq> 0 then cancelAnimationFrame h w else w);
          m1 = (marker w1)\<lparr>startLatLng := latlng (marker w1),
                           targetLatLng := target,
                           startTime := t0,
                           duration := dur\<rparr>;
          w2 = w1\<lparr>marker := m1\<rparr>
      in if jlt (Fin 500) (distanceTo (startLatLng m1) (targetLatLng m1))
         then w2\<lparr>marker := m1\<lparr>latlng := targetLatLng m1\<rparr>\<rparr>
         else animate t1 w2)"

section \<open>Specification-level functions\<close>

text \<open>
  Real-valued counterparts of the computations above, used to state and prove the
  properties below: the haversine term and the distance of \<open>calculateDistance\<close>, and
  the array of cumulative distances with its total.
\<close>

definition haversineA :: "real \<Rightarrow> real \<Rightarrow> real \<Rightarrow> real \<Rightarrow> real" where
  "haversineA lat1 lon1 lat2 lon2 =
     sin ((lat2 - lat1) * (pi / 180) / 2) * sin ((lat2 - lat1) * (pi / 180) / 2)
     + cos (lat1 * (pi / 180)) * cos (lat2 * (pi / 180))
       * sin ((lon2 - lon1) * (pi / 180) / 2) * sin ((lon2 - lon1) * (pi / 180) / 2)"

definition distKm :: "real \<Rightarrow> real \<Rightarrow> real \<Rightarrow> real \<Rightarrow> real" where
  "distKm lat1 lon1 lat2 lon2 =
     6371 * (2 * atan2 (sqrt (haversineA lat1 lon1 lat2 lon2))
                       (sqrt (1 - haversineA lat1 lon1 lat2 lon2)))"

definition cumReal :: "shape \<Rightarrow> nat \<Rightarrow> real list \<times> real" where
  "cumReal sh n =
     foldl (\<lambda>(cs, t) i.
              (cs @ [t + distKm (fst (sh ! (i - 1))) (snd (sh ! (i - 1))) (fst (sh ! i)) (snd (sh ! i))],
               t + distKm (fst (sh ! (i - 1))) (snd (sh ! (i - 1))) (fst (sh ! i)) (snd (sh ! i))))
           ([0], 0) [1 ..< n]"

definition pathCumulative :: "shape \<Rightarrow> real list" where
  "pathCumulative sh = fst (cumReal sh (length sh))"

definition pathTotal :: "shape \<Rightarrow> real" where
  "pathTotal sh = snd (cumReal sh (length sh))"

text \<open>
  The point of the path at progress \<open>x\<close>: the segment that the search locates for the
  target distance \<open>frac x \<times> total\<close>, the interpolation factor within it, and the
  interpolated coordinates.
\<close>

definition interpFactor :: "real list \<Rightarrow> real \<Rightarrow> nat \<Rightarrow> real" where
  "interpFactor cs t k = (if cs ! (k + 1) = cs ! k then 0 else (t - cs ! k) / (cs ! (k + 1) - cs ! k))"

definition segmentAt :: "shape \<Rightarrow> real \<Rightarrow> nat" where
  "segmentAt sh x = findSegment (map Fin (pathCumulative sh)) (Fin (frac x * pathTotal sh)) 0"

definition samplePoint :: "shape \<Rightarrow> real \<Rightarrow> real \<times> real" where
  "samplePoint sh x =
     (let k = segmentAt sh x;
          s = interpFactor (pathCumulative sh) (frac x * pathTotal sh) k
      in (fst (sh ! k) + (fst (sh ! (k + 1)) - fst (sh ! k)) * s,
          snd (sh ! k) + (snd (sh ! (k + 1)) - snd (sh ! k)) * s))"

definition pointAt :: "shape \<Rightarrow> real \<Rightarrow> jsnum \<times> jsnum" where
  "pointAt sh x = (Fin (fst (samplePoint sh x)), Fin (snd (samplePoint sh x)))"

text \<open>The coordinates of a vehicle, and the bounding box of a path's points.\<close>

definition coords :: "LiveVehicle \<Rightarrow> jsnum \<times> jsnum" where
  "coords v = (latitude v, longitude v)"

definition inBoundingBox :: "shape \<Rightarrow> jsnum \<times> jsnum \<Rightarrow> bool" where
  "inBoundingBox shapePoints c =
     (case c of
        (Fin la, Fin lo) \<Rightarrow>
           Min (fst ` set shapePoints) \<le> la \<and> la \<le> Max (fst ` set shapePoints)
           \<and> Min (snd ` set shapePoints) \<le> lo \<and> lo \<le> Max (snd ` set shapePoints)
      | _ \<Rightarrow> False)"

text \<open>
  The pair that both closures compute from the located segment \<open>k\<close> and the
  interpolation factor \<open>s\<close>: \<^verbatim>\<open>lat1 + (lat2 - lat1) * s\<close> and
  \<^verbatim>\<open>lon1 + (lon2 - lon1) * s\<close> (MapScreen.tsx lines 123-124, transportService.ts lines
  174-175).
\<close>

definition interpolated :: "shape \<Rightarrow> nat \<Rightarrow> jsnum \<Rightarrow> jsnum \<times> jsnum" where
  "interpolated shapePoints k s =
     (jadd (Fin (fst (shapePoints ! k)))
           (jmul (jsub (Fin (fst (shapePoints ! (k + 1)))) (Fin (fst (shapePoints ! k)))) s),
      jadd (Fin (snd (shapePoints ! k)))
           (jmul (jsub (Fin (snd (shapePoints ! (k + 1)))) (Fin (snd (shapePoints ! k)))) s))"



text \<open>
  The minutes since local midnight of a valid Date whose local time value is \<open>L\<close>
  milliseconds, and the raw progress of slot \<open>i\<close> that the loops of each copy compute
  from it (outbound in both copies, inbound in transportService.ts).
\<close>

definition minutesOfDay :: "int \<Rightarrow> real" where
  "minutesOfDay L =
     real_of_int ((L div 3600000) mod 24) * 60 + real_of_int ((L div 60000) mod 60)
     + real_of_int ((L div 1000) mod 60) / 60"

definition progress_MapScreen :: "int \<Rightarrow> nat \<Rightarrow> real" where
  "progress_MapScreen L i = (minutesOfDay L - real i * HEADWAY_MIN) / TRIP_MIN"

definition progress_transportService :: "int \<Rightarrow> nat \<Rightarrow> real" where
  "progress_transportService L i =
     (minutesOfDay L - real i * HEADWAY_MIN_transportService) / TRIP_DURATION_MIN"

definition progressInbound_transportService :: "int \<Rightarrow> nat \<Rightarrow> real" where
  "progressInbound_transportService L i =
     1 - (minutesOfDay L - (real i * HEADWAY_MIN_transportService + HEADWAY_MIN_transportService / 2))
         / TRIP_DURATION_MIN"

text \<open>
  The value of \<open>prog\<close> in iteration \<open>i\<close> of either loop of MapScreen.tsx (lines 140-141
  and 146-147) and of the outbound loop of transportService.ts (lines 191-192), as the
  source computes it from the Date.
\<close>

definition prog_MapScreen :: "Date \<Rightarrow> nat \<Rightarrow> jsnum" where
  "prog_MapScreen now i =
     jdiv (jsub (jadd (jadd (jmul (getHours now) (Fin 60)) (getMinutes now))
                      (jdiv (getSeconds now) (Fin 60)))
                (jmul (Fin (real i)) (Fin HEADWAY_MIN)))
          (Fin TRIP_MIN)"

definition prog_transportService :: "Date \<Rightarrow> nat \<Rightarrow> jsnum" where
  "prog_transportService now i =
     jdiv (jsub (jadd (jadd (jmul (getHours now) (Fin 60)) (getMinutes now))
                      (jdiv (getSeconds now) (Fin 60)))
                (jmul (Fin (real i)) (Fin HEADWAY_MIN_transportService)))
          (Fin TRIP_DURATION_MIN)"

text \<open>The identifier templates of the two copies (MapScreen.tsx line 127, transportService.ts line 178).\<close>

definition vehicleId_MapScreen :: "string \<Rightarrow> nat \<Rightarrow> nat \<Rightarrow> string" where
  "vehicleId_MapScreen rid dir index =
     ''SIM-'' @ rid @ ''-'' @ numToString dir @ ''-'' @ numToString index"

definition vehicleId_transportService :: "string \<Rightarrow> nat \<Rightarrow> nat \<Rightarrow> string" where
  "vehicleId_transportService rid dir idx =
     ''GTFS-'' @ rid @ ''-'' @ numToString dir @ ''-'' @ numToString idx"

text \<open>
  Inputs for the concrete instances: route 15 of the sample data; four clock readings
  (local midnight at the epoch, the same wall-clock time one day later, 00:11:15 on the
  first day, and an Invalid Date); the haversine distance in metres, as Leaflet's \<open>distanceTo\<close> computes it on the
  same earth radius; and the state that the constructor of \<open>SmoothMarker\<close> leaves
  (lines 33-39), with an empty frame scheduler.
\<close>

definition nextDay :: Date where
  "nextDay = \<lparr> timeValue = Some 86400000, localTZA = 0 \<rparr>"

definition quarterTrip :: Date where
  "quarterTrip = \<lparr> timeValue = Some 675000, localTZA = 0 \<rparr>"

text \<open>
  Three instants around the start of summer time in Dublin (2026-03-29 01:00 UTC, when
  the local offset goes from 0 to one hour): 00:30 UTC, and the instants 45 and 60
  minutes later.
\<close>

definition beforeSummerTime :: Date where
  "beforeSummerTime = \<lparr> timeValue = Some 1774744200000, localTZA = 0 \<rparr>"

definition summerTime45 :: Date where
  "summerTime45 = \<lparr> timeValue = Some 1774746900000, localTZA = 3600000 \<rparr>"

definition summerTime60 :: Date where
  "summerTime60 = \<lparr> timeValue = Some 1774747800000, localTZA = 3600000 \<rparr>"

definition distanceMetres :: "LatLng \<Rightarrow> LatLng \<Rightarrow> jsnum" where
  "distanceMetres a b = jmul (Fin 1000) (calculateDistance (lat a) (lng a) (lat b) (lng b))"

definition markerAt :: "LatLng \<Rightarrow> World" where
  "markerAt p =
     \<lparr> marker = \<lparr> latlng = p, targetLatLng = p, startLatLng = p, startTime = Fin 0,
                   duration = Fin 1000, animationFrameId = None \<rparr>,
       pendingFrames = [], nextFrameId = 1 \<rparr>"

definition route15 :: Route where
  "route15 = \<lparr> route_id = ''15'', route_short_name = ''15'',
                route_long_name = ''Clongriffin - Ballycullen Rd'', route_type = ''3'',
                agency_id = ''DUB'' \<rparr>"

definition epochDate :: Date where
  "epochDate = \<lparr> timeValue = Some 0, localTZA = 0 \<rparr>"

definition invalidDate :: Date where
  "invalidDate = \<lparr> timeValue = None, localTZA = 0 \<rparr>"

section \<open>Numbers, distances and the segment search\<close>

lemma busesPerDirection_eq: "busesPerDirection = 6"
  by (simp add: busesPerDirection_def Math_ceil_def TRIP_MIN_def HEADWAY_MIN_def)

lemma busesPerDir_eq: "busesPerDir = 3"
  by (simp add: busesPerDir_def Math_ceil_def TRIP_DURATION_MIN_def HEADWAY_MIN_transportService_def)

lemma wrapFraction_Fin: "wrapFraction (Fin x) = Fin (frac x)"
proof (cases "0 \<le> x")
  case True
  have f: "0 \<le> frac x" "frac x < 1" by (simp_all add: frac_lt_1)
  have "\<lfloor>x - of_int \<lfloor>x\<rfloor> + 1\<rfloor> = 1"
    using f by (simp add: frac_def floor_eq_iff)
  then show ?thesis using True f
    by (simp add: wrapFraction_def trunc_def frac_def)
next
  case False
  show ?thesis
  proof (cases "x \<in> \<int>")
    case True
    then have "of_int \<lceil>x\<rceil> = x" "frac x = 0" by (auto simp: frac_eq_0_iff elim: Ints_cases)
    then show ?thesis using False
      by (simp add: wrapFraction_def trunc_def)
  next
    case nI: False
    then have "x \<noteq> of_int \<lfloor>x\<rfloor>" by (metis Ints_of_int)
    then have c: "\<lceil>x\<rceil> = \<lfloor>x\<rfloor> + 1" by (simp add: ceiling_altdef)
    have f: "0 < frac x" "frac x < 1" using nI by (simp_all add: frac_lt_1 frac_gt_0_iff)
    have "x - of_int \<lceil>x\<rceil> + 1 = frac x" using c by (simp add: frac_def)
    moreover have "\<lfloor>frac x\<rfloor> = 0" using f by (simp add: floor_eq_iff)
    ultimately show ?thesis using False f
      by (simp add: wrapFraction_def trunc_def)
  qed
qed

lemma hav_ident: "cos (p::real) * cos q = (cos ((q + p) / 2))\<^sup>2 - (sin ((q - p) / 2))\<^sup>2"
proof -
  define u where "u = (q - p) / 2"
  define v where "v = (q + p) / 2"
  have e: "v - u = p" "v + u = q" by (simp_all add: u_def v_def field_simps)
  have "cos (v - u) * cos (v + u)
          = (cos v * cos u + sin v * sin u) * (cos v * cos u - sin v * sin u)"
    by (simp only: cos_add cos_diff)
  also have "\<dots> = (cos v)\<^sup>2 * (cos u)\<^sup>2 - (sin v)\<^sup>2 * (sin u)\<^sup>2"
    by algebra
  also have "\<dots> = (cos v)\<^sup>2 * (1 - (sin u)\<^sup>2) - (1 - (cos v)\<^sup>2) * (sin u)\<^sup>2"
    by (simp only: cos_squared_eq [of u] sin_squared_eq [of v])
  also have "\<dots> = (cos v)\<^sup>2 - (sin u)\<^sup>2" by algebra
  finally have "cos (v - u) * cos (v + u) = (cos v)\<^sup>2 - (sin u)\<^sup>2" .
  then show ?thesis unfolding e by (simp only: u_def v_def)
qed

lemma hav_range:
  fixes p q w :: real
  defines "h \<equiv> sin ((q - p) / 2) * sin ((q - p) / 2) + cos p * cos q * sin w * sin w"
  shows "0 \<le> h \<and> h \<le> 1"
proof -
  define A where "A = (sin ((q - p) / 2))\<^sup>2"
  define B where "B = (cos ((q + p) / 2))\<^sup>2"
  define s where "s = (sin w)\<^sup>2"
  have A: "0 \<le> A" "A \<le> 1" by (simp_all add: A_def abs_square_le_1)
  have B: "0 \<le> B" "B \<le> 1" by (simp_all add: B_def abs_square_le_1)
  have s: "0 \<le> s" "s \<le> 1" by (simp_all add: s_def abs_square_le_1)
  have "h = A + (B - A) * s"
    unfolding h_def hav_ident A_def B_def s_def by (simp add: power2_eq_square algebra_simps)
  then have h: "h = A * (1 - s) + B * s" by (simp add: algebra_simps)
  have "0 \<le> A * (1 - s) + B * s" using A B s by (simp add: mult_nonneg_nonneg)
  moreover have "A * (1 - s) + B * s \<le> 1 * (1 - s) + 1 * s"
    using A B s by (intro add_mono mult_right_mono) simp_all
  ultimately show ?thesis using h by simp
qed

lemma atan2_nonneg: "0 \<le> y \<Longrightarrow> 0 \<le> x \<Longrightarrow> 0 \<le> atan2 y x"
  by (simp add: atan2_def)

lemma haversineA_range: "0 \<le> haversineA a b c d \<and> haversineA a b c d \<le> 1"
proof -
  have e: "(c - a) * (pi / 180) / 2 = (c * (pi / 180) - a * (pi / 180)) / 2"
    by (simp only: left_diff_distrib)
  show ?thesis unfolding haversineA_def e by (rule hav_range)
qed

lemma distKm_nonneg: "0 \<le> distKm a b c d"
  using haversineA_range [of a b c d] by (simp add: distKm_def atan2_nonneg)

lemma jsub_Fin [simp]: "jsub (Fin x) (Fin y) = Fin (x - y)"
  by (simp add: jsub_def)

lemma haversine_term:
  "jadd (jmul (Math_sin (jdiv (deg2rad (jsub (Fin c) (Fin a))) (Fin 2)))
              (Math_sin (jdiv (deg2rad (jsub (Fin c) (Fin a))) (Fin 2))))
        (jmul (jmul (jmul (Math_cos (deg2rad (Fin a))) (Math_cos (deg2rad (Fin c))))
                    (Math_sin (jdiv (deg2rad (jsub (Fin d) (Fin b))) (Fin 2))))
              (Math_sin (jdiv (deg2rad (jsub (Fin d) (Fin b))) (Fin 2))))
   = Fin (haversineA a b c d)"
  by (simp add: deg2rad_def Math_PI_def haversineA_def)

lemma calculateDistance_Fin:
  "calculateDistance (Fin a) (Fin b) (Fin c) (Fin d) = Fin (distKm a b c d)"
proof -
  have "calculateDistance (Fin a) (Fin b) (Fin c) (Fin d)
        = jmul (Fin 6371) (jmul (Fin 2)
            (Math_atan2 (Math_sqrt (Fin (haversineA a b c d)))
                        (Math_sqrt (jsub (Fin 1) (Fin (haversineA a b c d))))))"
    by (simp only: calculateDistance_def Let_def haversine_term)
  then show ?thesis using haversineA_range [of a b c d] by (simp add: distKm_def)
qed

lemma haversine_term_TS:
  "jadd (jmul (Math_sin (jdiv (jdiv (jmul (jsub (Fin c) (Fin a)) Math_PI) (Fin 180)) (Fin 2)))
              (Math_sin (jdiv (jdiv (jmul (jsub (Fin c) (Fin a)) Math_PI) (Fin 180)) (Fin 2))))
        (jmul (jmul (jmul (Math_cos (jdiv (jmul (Fin a) Math_PI) (Fin 180)))
                          (Math_cos (jdiv (jmul (Fin c) Math_PI) (Fin 180))))
                    (Math_sin (jdiv (jdiv (jmul (jsub (Fin d) (Fin b)) Math_PI) (Fin 180)) (Fin 2))))
              (Math_sin (jdiv (jdiv (jmul (jsub (Fin d) (Fin b)) Math_PI) (Fin 180)) (Fin 2))))
   = Fin (haversineA a b c d)"
  by (simp add: Math_PI_def haversineA_def)

lemma calculateDistance_transportService_Fin:
  "calculateDistance_transportService (Fin a) (Fin b) (Fin c) (Fin d) = Fin (distKm a b c d)"
proof -
  have "calculateDistance_transportService (Fin a) (Fin b) (Fin c) (Fin d)
        = jmul (Fin 6371) (jmul (Fin 2)
            (Math_atan2 (Math_sqrt (Fin (haversineA a b c d)))
                        (Math_sqrt (jsub (Fin 1) (Fin (haversineA a b c d))))))"
    by (simp only: calculateDistance_transportService_def Let_def haversine_term_TS)
  then show ?thesis using haversineA_range [of a b c d] by (simp add: distKm_def)
qed

lemma cumReal_Suc:
  "1 \<le> n \<Longrightarrow> cumReal sh (Suc n) =
     (fst (cumReal sh n) @
        [snd (cumReal sh n) + distKm (fst (sh ! (n - 1))) (snd (sh ! (n - 1))) (fst (sh ! n)) (snd (sh ! n))],
      snd (cumReal sh n) + distKm (fst (sh ! (n - 1))) (snd (sh ! (n - 1))) (fst (sh ! n)) (snd (sh ! n)))"
  by (simp add: cumReal_def case_prod_beta)

lemma cumReal_small: "n \<le> 1 \<Longrightarrow> cumReal sh n = ([0], 0)"
  by (simp add: cumReal_def)

lemma cumReal_props:
  "length (fst (cumReal sh n)) = max 1 n \<and> fst (cumReal sh n) ! 0 = 0
   \<and> snd (cumReal sh n) = last (fst (cumReal sh n)) \<and> 0 \<le> snd (cumReal sh n)"
proof (induction n)
  case 0
  show ?case by (simp add: cumReal_small)
next
  case (Suc n)
  show ?case
  proof (cases "1 \<le> n")
    case True
    then show ?thesis using Suc distKm_nonneg
      by (simp add: cumReal_Suc nth_append)
  next
    case False
    then show ?thesis by (simp add: cumReal_small)
  qed
qed

lemma cumulative_foldl_refine:
  assumes f: "\<And>a b c d. f (Fin a) (Fin b) (Fin c) (Fin d) = Fin (distKm a b c d)"
  shows "foldl
       (\<lambda>(cumulative, total) i.
          let d = f (Fin (fst (sh ! (i - 1)))) (Fin (snd (sh ! (i - 1))))
                       (Fin (fst (sh ! i))) (Fin (snd (sh ! i)));
              total' = jadd total d
          in (cumulative @ [total'], total'))
       ([Fin 0], Fin 0)
       [1 ..< n] = (map Fin (fst (cumReal sh n)), Fin (snd (cumReal sh n)))"
proof (induction n)
  case 0
  show ?case by (simp add: cumReal_small)
next
  case (Suc n)
  show ?case
  proof (cases "1 \<le> n")
    case True
    then show ?thesis using Suc
      by (simp add: cumReal_Suc f Let_def)
  next
    case False
    then show ?thesis by (simp add: cumReal_small)
  qed
qed

lemma cumulativeDistances_refine:
  assumes f: "\<And>a b c d. f (Fin a) (Fin b) (Fin c) (Fin d) = Fin (distKm a b c d)"
  shows "cumulativeDistances f sh = (map Fin (pathCumulative sh), Fin (pathTotal sh))"
  unfolding cumulativeDistances_def pathCumulative_def pathTotal_def
  by (rule cumulative_foldl_refine [OF f])

lemmas cumulativeDistances_MapScreen = cumulativeDistances_refine [of calculateDistance, OF calculateDistance_Fin]

lemmas cumulativeDistances_transportService =
  cumulativeDistances_refine [of calculateDistance_transportService, OF calculateDistance_transportService_Fin]

lemma pathCumulative_length: "sh \<noteq> [] \<Longrightarrow> length (pathCumulative sh) = length sh"
  using cumReal_props [of sh "length sh"] by (cases sh) (simp_all add: pathCumulative_def)

lemma pathCumulative_0: "pathCumulative sh ! 0 = 0"
  using cumReal_props [of sh "length sh"] by (simp add: pathCumulative_def)

lemma pathTotal_last: "pathTotal sh = last (pathCumulative sh)"
  using cumReal_props [of sh "length sh"] by (simp add: pathCumulative_def pathTotal_def)

lemma pathTotal_nonneg: "0 \<le> pathTotal sh"
  using cumReal_props [of sh "length sh"] by (simp add: pathTotal_def)

lemma jlt_NaN_right [simp]: "jlt x NaN = False"
  by (cases x) simp_all

lemma findSegment_NaN: "findSegment cumulative NaN j = j"
  by (subst findSegment.simps) simp

lemma findSegment_spec:
  assumes "j < length cs"
  shows "j \<le> findSegment (map Fin cs) (Fin t) j
       \<and> findSegment (map Fin cs) (Fin t) j < length cs
       \<and> (findSegment (map Fin cs) (Fin t) j + 1 < length cs
            \<longrightarrow> t \<le> cs ! (findSegment (map Fin cs) (Fin t) j + 1))
       \<and> (j < findSegment (map Fin cs) (Fin t) j
            \<longrightarrow> cs ! (findSegment (map Fin cs) (Fin t) j) < t)"
  using assms
proof (induction "length cs - j" arbitrary: j rule: less_induct)
  case less
  show ?case
  proof (cases "j + 1 < length cs \<and> cs ! (j + 1) < t")
    case True
    then have step: "findSegment (map Fin cs) (Fin t) j = findSegment (map Fin cs) (Fin t) (j + 1)"
      by (subst findSegment.simps) simp
    have "length cs - (j + 1) < length cs - j" using True by linarith
    from less.hyps [OF this] True
    have IH: "j + 1 \<le> findSegment (map Fin cs) (Fin t) (j + 1)
       \<and> findSegment (map Fin cs) (Fin t) (j + 1) < length cs
       \<and> (findSegment (map Fin cs) (Fin t) (j + 1) + 1 < length cs
            \<longrightarrow> t \<le> cs ! (findSegment (map Fin cs) (Fin t) (j + 1) + 1))
       \<and> (j + 1 < findSegment (map Fin cs) (Fin t) (j + 1)
            \<longrightarrow> cs ! (findSegment (map Fin cs) (Fin t) (j + 1)) < t)"
      by simp
    show ?thesis
    proof (cases "findSegment (map Fin cs) (Fin t) (j + 1) = j + 1")
      case True
      with IH \<open>j + 1 < length cs \<and> cs ! (j + 1) < t\<close> show ?thesis
        unfolding step by simp
    next
      case False
      with IH show ?thesis unfolding step by auto
    qed
  next
    case False
    then have "findSegment (map Fin cs) (Fin t) j = j"
      by (subst findSegment.simps) auto
    with False less.prems show ?thesis by auto
  qed
qed

lemma segment_bounds:
  assumes "2 \<le> length cs" "cs ! 0 = 0" "0 \<le> t" "t \<le> last cs"
  shows "findSegment (map Fin cs) (Fin t) 0 + 1 < length cs
       \<and> cs ! (findSegment (map Fin cs) (Fin t) 0) \<le> t
       \<and> t \<le> cs ! (findSegment (map Fin cs) (Fin t) 0 + 1)"
proof -
  define k where "k = findSegment (map Fin cs) (Fin t) 0"
  have "0 < length cs" using assms(1) by (cases cs) simp_all
  from findSegment_spec [OF this, of t]
  have k: "k < length cs" "k + 1 < length cs \<longrightarrow> t \<le> cs ! (k + 1)" "0 < k \<longrightarrow> cs ! k < t"
    by (simp_all add: k_def)
  have last: "last cs = cs ! (length cs - 1)"
    using assms(1) by (cases cs) (simp_all add: last_conv_nth)
  have "k + 1 < length cs"
  proof (rule ccontr)
    assume "\<not> k + 1 < length cs"
    with k(1) have e: "k = length cs - 1" by simp
    with assms(1) have "0 < k" by simp
    with k(3) have "cs ! k < t" by simp
    with e last assms(4) show False by simp
  qed
  moreover have "cs ! k \<le> t" using k(3) assms(2,3) by (cases "k = 0") auto
  ultimately show ?thesis using k(2) by (simp add: k_def)
qed

section \<open>Sampling the path\<close>

lemma target_range: "0 \<le> frac x * pathTotal sh \<and> frac x * pathTotal sh \<le> last (pathCumulative sh)"
proof -
  have f: "0 \<le> frac x" "frac x \<le> 1" using frac_lt_1 [of x] by simp_all
  have "frac x * pathTotal sh \<le> 1 * pathTotal sh"
    using f pathTotal_nonneg [of sh] by (intro mult_right_mono) simp_all
  then show ?thesis using f pathTotal_nonneg [of sh] by (simp add: pathTotal_last)
qed

lemma segmentAt_bounds:
  assumes "2 \<le> length sh"
  shows "segmentAt sh x + 1 < length sh"
    and "pathCumulative sh ! segmentAt sh x \<le> frac x * pathTotal sh"
    and "frac x * pathTotal sh \<le> pathCumulative sh ! (segmentAt sh x + 1)"
proof -
  have ne: "sh \<noteq> []" using assms by auto
  have len: "length (pathCumulative sh) = length sh" by (rule pathCumulative_length [OF ne])
  have "2 \<le> length (pathCumulative sh)" using assms len by simp
  from segment_bounds [OF this pathCumulative_0, of "frac x * pathTotal sh"] target_range [of x sh]
  show "segmentAt sh x + 1 < length sh"
    and "pathCumulative sh ! segmentAt sh x \<le> frac x * pathTotal sh"
    and "frac x * pathTotal sh \<le> pathCumulative sh ! (segmentAt sh x + 1)"
    by (simp_all add: segmentAt_def len)
qed

lemma makeVehicleAtFraction_position:
  assumes "2 \<le> length sh"
  shows "latitude (makeVehicleAtFraction route sh (map Fin (pathCumulative sh)) (Fin (pathTotal sh))
                     now (Fin x) index dir) = Fin (fst (samplePoint sh x))"
    and "longitude (makeVehicleAtFraction route sh (map Fin (pathCumulative sh)) (Fin (pathTotal sh))
                     now (Fin x) index dir) = Fin (snd (samplePoint sh x))"
proof -
  have ne: "sh \<noteq> []" using assms by auto
  have len: "length (pathCumulative sh) = length sh" by (rule pathCumulative_length [OF ne])
  note b = segmentAt_bounds [OF assms, of x]
  have k: "findSegment (map Fin (pathCumulative sh)) (Fin (frac x * pathTotal sh)) 0 = segmentAt sh x"
    by (simp add: segmentAt_def)
  have m: "min (segmentAt sh x + 1) (length sh - 1) = segmentAt sh x + 1"
    using b(1) by simp
  have n1: "map Fin (pathCumulative sh) ! segmentAt sh x = Fin (pathCumulative sh ! segmentAt sh x)"
    using b(1) len by simp
  have n2: "map Fin (pathCumulative sh) ! (segmentAt sh x + 1) = Fin (pathCumulative sh ! (segmentAt sh x + 1))"
    using b(1) len by simp
  show "latitude (makeVehicleAtFraction route sh (map Fin (pathCumulative sh)) (Fin (pathTotal sh))
                     now (Fin x) index dir) = Fin (fst (samplePoint sh x))"
    unfolding makeVehicleAtFraction_def Let_def wrapFraction_Fin jmul.simps k length_map len m n1 n2
    by (simp add: samplePoint_def interpFactor_def jeq_def Let_def)
  show "longitude (makeVehicleAtFraction route sh (map Fin (pathCumulative sh)) (Fin (pathTotal sh))
                     now (Fin x) index dir) = Fin (snd (samplePoint sh x))"
    unfolding makeVehicleAtFraction_def Let_def wrapFraction_Fin jmul.simps k length_map len m n1 n2
    by (simp add: samplePoint_def interpFactor_def jeq_def Let_def)
qed

lemma placeVehicle_position:
  assumes "2 \<le> length sh"
  shows "latitude (placeVehicle route sh (map Fin (pathCumulative sh)) (Fin (pathTotal sh))
                     now (Fin x) dir idx) = Fin (fst (samplePoint sh x))"
    and "longitude (placeVehicle route sh (map Fin (pathCumulative sh)) (Fin (pathTotal sh))
                     now (Fin x) dir idx) = Fin (snd (samplePoint sh x))"
proof -
  have ne: "sh \<noteq> []" using assms by auto
  have len: "length (pathCumulative sh) = length sh" by (rule pathCumulative_length [OF ne])
  note b = segmentAt_bounds [OF assms, of x]
  have k: "findSegment (map Fin (pathCumulative sh)) (Fin (frac x * pathTotal sh)) 0 = segmentAt sh x"
    by (simp add: segmentAt_def)
  have m: "min (segmentAt sh x + 1) (length sh - 1) = segmentAt sh x + 1"
    using b(1) by simp
  have n1: "map Fin (pathCumulative sh) ! segmentAt sh x = Fin (pathCumulative sh ! segmentAt sh x)"
    using b(1) len by simp
  have n2: "map Fin (pathCumulative sh) ! (segmentAt sh x + 1) = Fin (pathCumulative sh ! (segmentAt sh x + 1))"
    using b(1) len by simp
  have z: "pathCumulative sh ! (segmentAt sh x + 1) = pathCumulative sh ! segmentAt sh x
           \<Longrightarrow> frac x * pathTotal sh = pathCumulative sh ! segmentAt sh x"
    using b(2,3) by simp
  show "latitude (placeVehicle route sh (map Fin (pathCumulative sh)) (Fin (pathTotal sh))
                     now (Fin x) dir idx) = Fin (fst (samplePoint sh x))"
    unfolding placeVehicle_def Let_def wrapFraction_Fin jmul.simps k length_map len m n1 n2
    using z by (simp add: samplePoint_def interpFactor_def jor_def Let_def)
  show "longitude (placeVehicle route sh (map Fin (pathCumulative sh)) (Fin (pathTotal sh))
                     now (Fin x) dir idx) = Fin (snd (samplePoint sh x))"
    unfolding placeVehicle_def Let_def wrapFraction_Fin jmul.simps k length_map len m n1 n2
    using z by (simp add: samplePoint_def interpFactor_def jor_def Let_def)
qed

section \<open>The generator's output list\<close>

lemma length_generate_MapScreen:
  "length (generateSimulatedVehiclesForRoute_MapScreen clock route sh nowArg) =
     (if length sh < 2 \<or> pathTotal sh = 0 then 0 else 2 * busesPerDirection)"
  by (simp add: generateSimulatedVehiclesForRoute_MapScreen_def Let_def
      cumulativeDistances_MapScreen jeq_def)

lemma length_generate_transportService:
  "length (generateSimulatedVehiclesForRoute_transportService route sh now) =
     (if length sh < 2 then 0 else 2 * busesPerDir)"
  by (simp add: generateSimulatedVehiclesForRoute_transportService_def Let_def)

lemma busesPerDirection_ceil: "busesPerDirection = nat \<lceil>TRIP_MIN / HEADWAY_MIN\<rceil>"
  by (simp add: busesPerDirection_def Math_ceil_def TRIP_MIN_def HEADWAY_MIN_def)

lemma distKm_same [simp]: "distKm a b a b = 0"
  by (simp add: distKm_def haversineA_def atan2_def)

lemma pathTotal_two: "pathTotal [p, q] = distKm (fst p) (snd p) (fst q) (snd q)"
  by (simp add: pathTotal_def cumReal_def)

lemma pathCumulative_two: "pathCumulative [p, q] = [0, distKm (fst p) (snd p) (fst q) (snd q)]"
  by (simp add: pathCumulative_def cumReal_def)

text \<open>
  Claim C1 (cardinality), as amended. The copy in transportService.ts returns exactly
  \<open>2 \<times> ceil(tripDuration / headway)\<close> vehicles for every path of at least two points and
  the empty list for a shorter path. The copy in MapScreen.tsx does the same, except that
  it also returns the empty list when the total length of the path is zero
  (its guard \<^verbatim>\<open>if (total === 0) return []\<close>). Neither copy raises an error.
\<close>

theorem generator_cardinality:
  "length (generateSimulatedVehiclesForRoute_transportService route shapePoints now)
     = (if length shapePoints < 2 then 0
        else 2 * nat \<lceil>TRIP_DURATION_MIN / HEADWAY_MIN_transportService\<rceil>)
   \<and> length (generateSimulatedVehiclesForRoute_MapScreen clock route shapePoints nowArg)
     = (if length shapePoints < 2
           \<or> snd (cumulativeDistances calculateDistance shapePoints) = Fin 0 then 0
        else 2 * nat \<lceil>TRIP_MIN / HEADWAY_MIN\<rceil>)"
  by (simp add: length_generate_MapScreen length_generate_transportService
      busesPerDirection_ceil busesPerDir_def Math_ceil_def cumulativeDistances_MapScreen)

text \<open>
  Claim C1 as stated fails in MapScreen.tsx: the path \<open>[(0,0), (0,0)]\<close> has two points
  and yields no vehicle, not twelve.
\<close>

theorem generator_cardinality_counterexample:
  "2 \<le> length [(0::real, 0::real), (0, 0)]
   \<and> length (generateSimulatedVehiclesForRoute_MapScreen epochDate route15 [(0, 0), (0, 0)]
               (Some epochDate))
     \<noteq> 2 * nat \<lceil>TRIP_MIN / HEADWAY_MIN\<rceil>"
  by (simp add: length_generate_MapScreen pathTotal_two TRIP_MIN_def HEADWAY_MIN_def)

section \<open>The clock and the schedule\<close>

lemma timeVal_valid:
  "timeValue now = Some t \<Longrightarrow>
     jadd (jadd (jmul (getHours now) (Fin 60)) (getMinutes now)) (jdiv (getSeconds now) (Fin 60))
       = Fin (minutesOfDay (t + localTZA now))"
  by (simp add: getHours_def getMinutes_def getSeconds_def minutesOfDay_def)

lemma timeVal_invalid:
  "timeValue now = None \<Longrightarrow>
     jadd (jadd (jmul (getHours now) (Fin 60)) (getMinutes now)) (jdiv (getSeconds now) (Fin 60))
       = NaN"
  by (simp add: getHours_def getMinutes_def getSeconds_def)

lemma hours_minutes: "((M::int) div 60 mod 24) * 60 + M mod 60 = M mod 1440"
  using zmod_zmult2_eq [of 24 M 60] by simp

lemma minutesOfDay_alt:
  "minutesOfDay L = real_of_int ((L div 60000) mod 1440) + real_of_int ((L div 1000) mod 60) / 60"
proof -
  have "L div 3600000 = (L div 60000) div 60"
    using zdiv_zmult2_eq [of 60 L 60000] by simp
  then have "real_of_int ((L div 3600000) mod 24) * 60 + real_of_int ((L div 60000) mod 60)
     = real_of_int (((L div 60000) div 60 mod 24) * 60 + (L div 60000) mod 60)"
    by simp
  then show ?thesis unfolding minutesOfDay_def hours_minutes by simp
qed

lemma minutesOfDay_shift:
  "\<exists>k::int. minutesOfDay (L + m * 60000) = minutesOfDay L + real_of_int m + 1440 * real_of_int k"
proof -
  have a: "(L + m * 60000) div 60000 = L div 60000 + m" by simp
  have "(L + m * 60000) div 1000 = L div 1000 + m * 60"
    using div_mult_self1 [of 1000 L "m * 60"] by (simp add: algebra_simps)
  then have b: "((L + m * 60000) div 1000) mod 60 = (L div 1000) mod 60" by simp
  define M where "M = L div 60000"
  define k where "k = M div 1440 - (M + m) div 1440"
  have "(M + m) mod 1440 = (M + m) - 1440 * ((M + m) div 1440)"
    by (rule minus_mult_div_eq_mod [symmetric])
  moreover have "M mod 1440 = M - 1440 * (M div 1440)"
    by (rule minus_mult_div_eq_mod [symmetric])
  ultimately have "(M + m) mod 1440 = M mod 1440 + m + 1440 * k"
    unfolding k_def by (simp add: algebra_simps)
  then have "real_of_int ((M + m) mod 1440) = real_of_int (M mod 1440) + real_of_int m + 1440 * real_of_int k"
    by simp
  then show ?thesis unfolding minutesOfDay_alt a b M_def [symmetric] by (intro exI [of _ k]) simp
qed

lemma TRIP_MIN_nonzero [simp]: "TRIP_MIN \<noteq> 0"
  by (simp add: TRIP_MIN_def)

lemma TRIP_DURATION_MIN_nonzero [simp]: "TRIP_DURATION_MIN \<noteq> 0"
  by (simp add: TRIP_DURATION_MIN_def)

lemma generate_MapScreen_valid:
  assumes "timeValue now = Some t" "2 \<le> length sh" "pathTotal sh \<noteq> 0"
  shows "generateSimulatedVehiclesForRoute_MapScreen clock route sh (Some now) =
     map (\<lambda>i. makeVehicleAtFraction route sh (map Fin (pathCumulative sh)) (Fin (pathTotal sh)) now
                 (Fin (progress_MapScreen (t + localTZA now) i)) i 0) [0 ..< busesPerDirection]
     @ map (\<lambda>i. makeVehicleAtFraction route sh (map Fin (pathCumulative sh)) (Fin (pathTotal sh)) now
                 (Fin (1 - progress_MapScreen (t + localTZA now) i)) i 1) [0 ..< busesPerDirection]"
  using assms
  by (simp add: generateSimulatedVehiclesForRoute_MapScreen_def Let_def timeVal_valid
      cumulativeDistances_MapScreen jeq_def progress_MapScreen_def)

lemma generate_transportService_valid:
  assumes "timeValue now = Some t" "2 \<le> length sh"
  shows "generateSimulatedVehiclesForRoute_transportService route sh now =
     map (\<lambda>i. placeVehicle route sh (map Fin (pathCumulative sh)) (Fin (pathTotal sh)) now
                 (Fin (progress_transportService (t + localTZA now) i)) 0 i) [0 ..< busesPerDir]
     @ map (\<lambda>i. placeVehicle route sh (map Fin (pathCumulative sh)) (Fin (pathTotal sh)) now
                 (Fin (progressInbound_transportService (t + localTZA now) i)) 1 i) [0 ..< busesPerDir]"
  using assms
  by (simp add: generateSimulatedVehiclesForRoute_transportService_def Let_def timeVal_valid
      cumulativeDistances_transportService progress_transportService_def
      progressInbound_transportService_def HEADWAY_MIN_transportService_def)

lemma coords_makeVehicleAtFraction:
  "2 \<le> length sh \<Longrightarrow>
   coords (makeVehicleAtFraction route sh (map Fin (pathCumulative sh)) (Fin (pathTotal sh))
             now (Fin x) index dir) = pointAt sh x"
  by (simp add: coords_def pointAt_def makeVehicleAtFraction_position)

lemma coords_placeVehicle:
  "2 \<le> length sh \<Longrightarrow>
   coords (placeVehicle route sh (map Fin (pathCumulative sh)) (Fin (pathTotal sh))
             now (Fin x) dir idx) = pointAt sh x"
  by (simp add: coords_def pointAt_def placeVehicle_position)

lemma coords_generate_MapScreen:
  assumes "timeValue now = Some t" "2 \<le> length sh" "pathTotal sh \<noteq> 0"
  shows "map coords (generateSimulatedVehiclesForRoute_MapScreen clock route sh (Some now)) =
     map (\<lambda>i. pointAt sh (progress_MapScreen (t + localTZA now) i)) [0 ..< busesPerDirection]
     @ map (\<lambda>i. pointAt sh (1 - progress_MapScreen (t + localTZA now) i)) [0 ..< busesPerDirection]"
  by (simp add: generate_MapScreen_valid [OF assms] coords_makeVehicleAtFraction [OF assms(2)] comp_def)

lemma coords_generate_transportService:
  assumes "timeValue now = Some t" "2 \<le> length sh"
  shows "map coords (generateSimulatedVehiclesForRoute_transportService route sh now) =
     map (\<lambda>i. pointAt sh (progress_transportService (t + localTZA now) i)) [0 ..< busesPerDir]
     @ map (\<lambda>i. pointAt sh (progressInbound_transportService (t + localTZA now) i)) [0 ..< busesPerDir]"
  by (simp add: generate_transportService_valid [OF assms] coords_placeVehicle [OF assms(2)] comp_def)

lemma pointAt_frac: "frac x = frac y \<Longrightarrow> pointAt sh x = pointAt sh y"
  by (simp add: pointAt_def samplePoint_def segmentAt_def)

lemma pointAt_shift: "pointAt sh (x + of_int k) = pointAt sh x"
  by (rule pointAt_frac) simp

lemma progress_MapScreen_shift:
  "\<exists>k::int. progress_MapScreen (L + m * 3600000) i = progress_MapScreen L i + of_int k"
proof -
  obtain k :: int where
    "minutesOfDay (L + (60 * m) * 60000) = minutesOfDay L + real_of_int (60 * m) + 1440 * real_of_int k"
    using minutesOfDay_shift [of L "60 * m"] by blast
  moreover have "L + (60 * m) * 60000 = L + m * 3600000" by simp
  ultimately have "progress_MapScreen (L + m * 3600000) i
      = progress_MapScreen L i + of_int (m + 24 * k)"
    by (simp add: progress_MapScreen_def TRIP_MIN_def field_simps)
  then show ?thesis by blast
qed

lemma progress_transportService_shift:
  "\<exists>k::int. progress_transportService (L + m * 2700000) i = progress_transportService L i + of_int k
            \<and> progressInbound_transportService (L + m * 2700000) i
                = progressInbound_transportService L i + of_int (- k)"
proof -
  obtain k :: int where
    "minutesOfDay (L + (45 * m) * 60000) = minutesOfDay L + real_of_int (45 * m) + 1440 * real_of_int k"
    using minutesOfDay_shift [of L "45 * m"] by blast
  moreover have "L + (45 * m) * 60000 = L + m * 2700000" by simp
  ultimately have "progress_transportService (L + m * 2700000) i
             = progress_transportService L i + of_int (m + 32 * k)
           \<and> progressInbound_transportService (L + m * 2700000) i
                = progressInbound_transportService L i + of_int (- (m + 32 * k))"
    by (simp add: progress_transportService_def progressInbound_transportService_def
        TRIP_DURATION_MIN_def field_simps)
  then show ?thesis by blast
qed

lemma pointAt_progress_MapScreen:
  "pointAt sh (progress_MapScreen (L + m * 3600000) i) = pointAt sh (progress_MapScreen L i)"
  "pointAt sh (1 - progress_MapScreen (L + m * 3600000) i) = pointAt sh (1 - progress_MapScreen L i)"
proof -
  obtain k :: int where k: "progress_MapScreen (L + m * 3600000) i = progress_MapScreen L i + of_int k"
    using progress_MapScreen_shift by blast
  show "pointAt sh (progress_MapScreen (L + m * 3600000) i) = pointAt sh (progress_MapScreen L i)"
    unfolding k by (rule pointAt_shift)
  have "1 - (progress_MapScreen L i + of_int k) = (1 - progress_MapScreen L i) + of_int (- k)"
    by simp
  then show "pointAt sh (1 - progress_MapScreen (L + m * 3600000) i)
      = pointAt sh (1 - progress_MapScreen L i)"
    unfolding k by (simp only: pointAt_shift)
qed

lemma pointAt_progress_transportService:
  "pointAt sh (progress_transportService (L + m * 2700000) i) = pointAt sh (progress_transportService L i)"
  "pointAt sh (progressInbound_transportService (L + m * 2700000) i)
     = pointAt sh (progressInbound_transportService L i)"
proof -
  obtain k :: int where
    k: "progress_transportService (L + m * 2700000) i = progress_transportService L i + of_int k"
    "progressInbound_transportService (L + m * 2700000) i
                = progressInbound_transportService L i + of_int (- k)"
    using progress_transportService_shift by blast
  show "pointAt sh (progress_transportService (L + m * 2700000) i)
      = pointAt sh (progress_transportService L i)"
    unfolding k by (rule pointAt_shift)
  show "pointAt sh (progressInbound_transportService (L + m * 2700000) i)
     = pointAt sh (progressInbound_transportService L i)"
    unfolding k by (rule pointAt_shift)
qed

lemma generate_MapScreen_empty:
  "length sh < 2 \<or> pathTotal sh = 0 \<Longrightarrow>
     generateSimulatedVehiclesForRoute_MapScreen clock route sh nowArg = []"
  using length_generate_MapScreen [of clock route sh nowArg] by auto

lemma generate_transportService_empty:
  "length sh < 2 \<Longrightarrow> generateSimulatedVehiclesForRoute_transportService route sh now = []"
  by (simp add: generateSimulatedVehiclesForRoute_transportService_def)

lemma between_endpoints:
  fixes a b s lo hi :: real
  assumes "0 \<le> s" "s \<le> 1" "lo \<le> a" "a \<le> hi" "lo \<le> b" "b \<le> hi"
  shows "lo \<le> a + (b - a) * s \<and> a + (b - a) * s \<le> hi"
proof -
  have e: "a + (b - a) * s = (1 - s) * a + s * b" by (simp add: algebra_simps)
  have "(1 - s) * lo + s * lo \<le> (1 - s) * a + s * b"
    using assms by (intro add_mono mult_left_mono) simp_all
  moreover have "(1 - s) * a + s * b \<le> (1 - s) * hi + s * hi"
    using assms by (intro add_mono mult_left_mono) simp_all
  ultimately show ?thesis unfolding e by (simp add: algebra_simps)
qed


lemma haversineA_antipodal: "haversineA 0 0 0 180 = 1"
  by (simp add: haversineA_def)

lemma distKm_antipodal: "distKm 0 0 0 180 = 6371 * pi"
  by (simp add: distKm_def haversineA_antipodal atan2_def)

lemma nth_generate_MapScreen:
  assumes "2 \<le> length sh" "snd (cumulativeDistances calculateDistance sh) \<noteq> Fin 0"
    "i < busesPerDirection"
  shows "generateSimulatedVehiclesForRoute_MapScreen clock route sh (Some now) ! i
          = makeVehicleAtFraction route sh (fst (cumulativeDistances calculateDistance sh))
              (snd (cumulativeDistances calculateDistance sh)) now (prog_MapScreen now i) i 0"
    and "generateSimulatedVehiclesForRoute_MapScreen clock route sh (Some now) ! (busesPerDirection + i)
          = makeVehicleAtFraction route sh (fst (cumulativeDistances calculateDistance sh))
              (snd (cumulativeDistances calculateDistance sh)) now
              (jsub (Fin 1) (prog_MapScreen now i)) i 1"
  using assms
  by (simp_all add: generateSimulatedVehiclesForRoute_MapScreen_def Let_def nth_append
      prog_MapScreen_def cumulativeDistances_MapScreen jeq_def)

lemma nth_generate_transportService:
  assumes "2 \<le> length sh" "i < busesPerDir"
  shows "generateSimulatedVehiclesForRoute_transportService route sh now ! i
          = placeVehicle route sh (fst (cumulativeDistances calculateDistance_transportService sh))
              (snd (cumulativeDistances calculateDistance_transportService sh)) now
              (prog_transportService now i) 0 i"
    and "generateSimulatedVehiclesForRoute_transportService route sh now ! (busesPerDir + i)
          = placeVehicle route sh (fst (cumulativeDistances calculateDistance_transportService sh))
              (snd (cumulativeDistances calculateDistance_transportService sh)) now
              (jsub (Fin 1)
                 (jdiv (jsub (jadd (jadd (jmul (getHours now) (Fin 60)) (getMinutes now))
                                   (jdiv (getSeconds now) (Fin 60)))
                             (jadd (jmul (Fin (real i)) (Fin HEADWAY_MIN_transportService))
                                   (jdiv (Fin HEADWAY_MIN_transportService) (Fin 2))))
                       (Fin TRIP_DURATION_MIN))) 1 i"
  using assms
  by (simp_all add: generateSimulatedVehiclesForRoute_transportService_def Let_def nth_append
      prog_transportService_def)

lemma coords_makeVehicleAtFraction_wrap:
  "wrapFraction f = wrapFraction g \<Longrightarrow>
     coords (makeVehicleAtFraction route sh cum tot now f i d)
       = coords (makeVehicleAtFraction route sh cum tot now g i' d')"
  by (simp add: makeVehicleAtFraction_def coords_def Let_def)

lemma coords_placeVehicle_wrap:
  "wrapFraction f = wrapFraction g \<Longrightarrow>
     coords (placeVehicle route sh cum tot now f d i)
       = coords (placeVehicle route sh cum tot now g d' i')"
  by (simp add: placeVehicle_def coords_def Let_def)

lemma wrapFraction_special [simp]:
  "wrapFraction NaN = NaN" "wrapFraction PosInf = NaN" "wrapFraction NegInf = NaN"
  by (simp_all add: wrapFraction_def)

lemma frac_one_minus_frac: "frac (1 - frac x) = frac (1 - (x::real))"
proof -
  have "1 - frac x = (1 - x) + of_int \<lfloor>x\<rfloor>" by (simp add: frac_def)
  then show ?thesis by (simp only: frac_add_of_int_right)
qed

lemma wrapFraction_reverse:
  "wrapFraction (jsub (Fin 1) p) = wrapFraction (jsub (Fin 1) (wrapFraction p))"
  by (cases p) (simp_all add: wrapFraction_Fin frac_one_minus_frac jsub_def)

lemma wrapFraction_reverse_shifted:
  assumes "msm = NaN \<or> (\<exists>m. msm = Fin m)"
  shows "wrapFraction
       (jsub (Fin 1)
          (jdiv (jsub msm (jadd (jmul (Fin (real i)) (Fin HEADWAY_MIN_transportService))
                                (jdiv (Fin HEADWAY_MIN_transportService) (Fin 2))))
                (Fin TRIP_DURATION_MIN)))
     = wrapFraction
         (jadd (jsub (Fin 1)
                  (wrapFraction (jdiv (jsub msm (jmul (Fin (real i)) (Fin HEADWAY_MIN_transportService)))
                                      (Fin TRIP_DURATION_MIN))))
               (jdiv (jdiv (Fin HEADWAY_MIN_transportService) (Fin 2)) (Fin TRIP_DURATION_MIN)))"
  using assms
proof
  assume "msm = NaN"
  then show ?thesis by (simp add: jsub_def)
next
  assume "\<exists>m. msm = Fin m"
  then obtain m where m: "msm = Fin m" by blast
  define y where "y = (m - real i * HEADWAY_MIN_transportService) / TRIP_DURATION_MIN"
  have "1 - (m - (real i * HEADWAY_MIN_transportService + HEADWAY_MIN_transportService / 2))
              / TRIP_DURATION_MIN
        = (1 - frac y + HEADWAY_MIN_transportService / 2 / TRIP_DURATION_MIN) + of_int (- \<lfloor>y\<rfloor>)"
    by (simp add: y_def frac_def field_simps)
  then have "frac (1 - (m - (real i * HEADWAY_MIN_transportService + HEADWAY_MIN_transportService / 2))
              / TRIP_DURATION_MIN)
        = frac (1 - frac y + HEADWAY_MIN_transportService / 2 / TRIP_DURATION_MIN)"
    by (simp only: frac_add_of_int_right)
  then show ?thesis
    unfolding m by (simp add: wrapFraction_Fin y_def HEADWAY_MIN_transportService_def)
qed

lemma timeVal_cases:
  "jadd (jadd (jmul (getHours now) (Fin 60)) (getMinutes now)) (jdiv (getSeconds now) (Fin 60)) = NaN
   \<or> (\<exists>m. jadd (jadd (jmul (getHours now) (Fin 60)) (getMinutes now)) (jdiv (getSeconds now) (Fin 60))
            = Fin m)"
  by (cases "timeValue now") (simp_all add: timeVal_valid timeVal_invalid)

text \<open>
  Claim C5 (direction symmetry), as amended. For every path of at least two points and
  every slot \<open>i\<close>: in MapScreen.tsx the direction-1 vehicle of slot \<open>i\<close> is emitted at the
  coordinate that the same closure gives for progress \<open>1 - p\<close>, where \<open>p\<close> is the wrapped
  progress of the direction-0 vehicle of slot \<open>i\<close>; in transportService.ts the
  direction-1 vehicle is emitted at the coordinate for progress
  \<open>1 - p + (HEADWAY_MIN / 2) / TRIP_DURATION_MIN\<close>, since its inbound loop shifts the
  offset by half a headway.
\<close>

theorem direction_symmetry:
  assumes "2 \<le> length shapePoints"
  shows "(i < busesPerDirection \<and> snd (cumulativeDistances calculateDistance shapePoints) \<noteq> Fin 0 \<longrightarrow>
          (let cumulative = fst (cumulativeDistances calculateDistance shapePoints);
               total' = snd (cumulativeDistances calculateDistance shapePoints);
               vehicles = generateSimulatedVehiclesForRoute_MapScreen clock route shapePoints (Some now)
           in vehicles ! i
                = makeVehicleAtFraction route shapePoints cumulative total' now (prog_MapScreen now i) i 0
              \<and> coords (vehicles ! (busesPerDirection + i))
                = coords (makeVehicleAtFraction route shapePoints cumulative total' now
                            (jsub (Fin 1) (wrapFraction (prog_MapScreen now i))) i 0)))
       \<and> (i < busesPerDir \<longrightarrow>
          (let cumulative = fst (cumulativeDistances calculateDistance_transportService shapePoints);
               totalDistance = snd (cumulativeDistances calculateDistance_transportService shapePoints);
               vehicles = generateSimulatedVehiclesForRoute_transportService route shapePoints now
           in vehicles ! i
                = placeVehicle route shapePoints cumulative totalDistance now
                    (prog_transportService now i) 0 i
              \<and> coords (vehicles ! (busesPerDir + i))
                = coords (placeVehicle route shapePoints cumulative totalDistance now
                            (jadd (jsub (Fin 1) (wrapFraction (prog_transportService now i)))
                                  (jdiv (jdiv (Fin HEADWAY_MIN_transportService) (Fin 2))
                                        (Fin TRIP_DURATION_MIN))) 0 i)))"
proof (intro conjI impI)
  assume a: "i < busesPerDirection \<and> snd (cumulativeDistances calculateDistance shapePoints) \<noteq> Fin 0"
  note n = nth_generate_MapScreen [OF assms conjunct2 [OF a] conjunct1 [OF a], of clock route now]
  show "let cumulative = fst (cumulativeDistances calculateDistance shapePoints);
               total' = snd (cumulativeDistances calculateDistance shapePoints);
               vehicles = generateSimulatedVehiclesForRoute_MapScreen clock route shapePoints (Some now)
           in vehicles ! i
                = makeVehicleAtFraction route shapePoints cumulative total' now (prog_MapScreen now i) i 0
              \<and> coords (vehicles ! (busesPerDirection + i))
                = coords (makeVehicleAtFraction route shapePoints cumulative total' now
                            (jsub (Fin 1) (wrapFraction (prog_MapScreen now i))) i 0)"
    unfolding Let_def n
    by (intro conjI refl coords_makeVehicleAtFraction_wrap wrapFraction_reverse)
next
  assume a: "i < busesPerDir"
  note n = nth_generate_transportService [OF assms a, of route now]
  show "let cumulative = fst (cumulativeDistances calculateDistance_transportService shapePoints);
               totalDistance = snd (cumulativeDistances calculateDistance_transportService shapePoints);
               vehicles = generateSimulatedVehiclesForRoute_transportService route shapePoints now
           in vehicles ! i
                = placeVehicle route shapePoints cumulative totalDistance now
                    (prog_transportService now i) 0 i
              \<and> coords (vehicles ! (busesPerDir + i))
                = coords (placeVehicle route shapePoints cumulative totalDistance now
                            (jadd (jsub (Fin 1) (wrapFraction (prog_transportService now i)))
                                  (jdiv (jdiv (Fin HEADWAY_MIN_transportService) (Fin 2))
                                        (Fin TRIP_DURATION_MIN))) 0 i)"
    unfolding Let_def n prog_transportService_def
    by (intro conjI refl coords_placeVehicle_wrap wrapFraction_reverse_shifted timeVal_cases)
qed

lemma findSegment_two:
  "0 < c \<Longrightarrow> t \<le> c \<Longrightarrow> findSegment [Fin 0, Fin c] (Fin t) 0 = 0"
  by (subst findSegment.simps) simp

lemma pointAt_antipodal:
  assumes "0 \<le> x" "x < 1"
  shows "pointAt [(0, 0), (0, 180)] x = (Fin 0, Fin (180 * x))"
proof -
  have f: "frac x = x" using assms by (simp add: frac_eq)
  have "x * (6371 * pi) \<le> 1 * (6371 * pi)"
    using assms by (intro mult_right_mono) simp_all
  then have "findSegment [Fin 0, Fin (6371 * pi)] (Fin (x * (6371 * pi))) 0 = 0"
    by (intro findSegment_two) simp_all
  then have seg: "segmentAt [(0, 0), (0, 180)] x = 0"
    by (simp add: segmentAt_def pathCumulative_two pathTotal_two distKm_antipodal f)
  show ?thesis
    by (simp add: pointAt_def samplePoint_def seg interpFactor_def pathCumulative_two pathTotal_two
        distKm_antipodal f Let_def)
qed

lemma cumulative_antipodal:
  "cumulativeDistances calculateDistance_transportService [(0, 0), (0, 180)]
     = (map Fin (pathCumulative [(0, 0), (0, 180)]), Fin (pathTotal [(0, 0), (0, 180)]))"
  "cumulativeDistances calculateDistance [(0, 0), (0, 180)]
     = (map Fin (pathCumulative [(0, 0), (0, 180)]), Fin (pathTotal [(0, 0), (0, 180)]))"
  by (simp_all only: cumulativeDistances_transportService cumulativeDistances_MapScreen)

lemma timeVal_quarterTrip:
  "jadd (jadd (jmul (getHours quarterTrip) (Fin 60)) (getMinutes quarterTrip))
        (jdiv (getSeconds quarterTrip) (Fin 60)) = Fin (45 / 4)"
  by (simp add: getHours_def getMinutes_def getSeconds_def quarterTrip_def)

text \<open>
  Claim C5 as stated fails in transportService.ts. On the path \<open>[(0,0), (0,180)]\<close> at
  00:11:15 local time, a quarter of the trip duration after midnight, the direction-0
  vehicle of slot 0 has wrapped progress \<open>p = 1/4\<close> and is at \<open>(0, 45)\<close>; the claim puts
  the direction-1 vehicle of slot 0 at the coordinate for progress \<open>1 - p = 3/4\<close>, which is
  \<open>(0, 135)\<close>, but the generator emits it at \<open>(0, 165)\<close>.
\<close>

theorem direction_symmetry_counterexample:
  "coords (generateSimulatedVehiclesForRoute_transportService route15 [(0, 0), (0, 180)] quarterTrip
             ! 0) = (Fin 0, Fin 45)
   \<and> coords (generateSimulatedVehiclesForRoute_transportService route15 [(0, 0), (0, 180)] quarterTrip
             ! (busesPerDir + 0)) = (Fin 0, Fin 165)
   \<and> coords (placeVehicle route15 [(0, 0), (0, 180)]
               (fst (cumulativeDistances calculateDistance_transportService [(0, 0), (0, 180)]))
               (snd (cumulativeDistances calculateDistance_transportService [(0, 0), (0, 180)]))
               quarterTrip (jsub (Fin 1) (wrapFraction (prog_transportService quarterTrip 0))) 0 0)
       = (Fin 0, Fin 135)"
proof -
  have l: "2 \<le> length [(0::real, 0::real), (0, 180)]" by simp
  have b: "0 < busesPerDir" by (simp add: busesPerDir_eq)
  have "coords (generateSimulatedVehiclesForRoute_transportService route15 [(0, 0), (0, 180)] quarterTrip
             ! 0) = pointAt [(0, 0), (0, 180)] (1 / 4)"
    unfolding nth_generate_transportService(1) [OF l b] prog_transportService_def timeVal_quarterTrip
      cumulative_antipodal fst_conv snd_conv
    by (simp add: HEADWAY_MIN_transportService_def TRIP_DURATION_MIN_def coords_placeVehicle)
  moreover have "coords (generateSimulatedVehiclesForRoute_transportService route15 [(0, 0), (0, 180)]
             quarterTrip ! (busesPerDir + 0)) = pointAt [(0, 0), (0, 180)] (11 / 12)"
    unfolding nth_generate_transportService(2) [OF l b] timeVal_quarterTrip cumulative_antipodal
      fst_conv snd_conv
    by (simp add: HEADWAY_MIN_transportService_def TRIP_DURATION_MIN_def coords_placeVehicle)
  moreover have "coords (placeVehicle route15 [(0, 0), (0, 180)]
               (fst (cumulativeDistances calculateDistance_transportService [(0, 0), (0, 180)]))
               (snd (cumulativeDistances calculateDistance_transportService [(0, 0), (0, 180)]))
               quarterTrip (jsub (Fin 1) (wrapFraction (prog_transportService quarterTrip 0))) 0 0)
       = pointAt [(0, 0), (0, 180)] (3 / 4)"
    unfolding prog_transportService_def timeVal_quarterTrip cumulative_antipodal fst_conv snd_conv
    by (simp add: HEADWAY_MIN_transportService_def TRIP_DURATION_MIN_def coords_placeVehicle
        wrapFraction_Fin frac_eq)
  ultimately show ?thesis
    by (simp add: pointAt_antipodal)
qed

theorem direction_symmetry_witness:
  "2 \<le> length [(0::real, 0::real), (0, 180)] \<and> 0 < busesPerDirection \<and> 0 < busesPerDir
   \<and> snd (cumulativeDistances calculateDistance [(0, 0), (0, 180)]) \<noteq> Fin 0
   \<and> coords (generateSimulatedVehiclesForRoute_MapScreen epochDate route15 [(0, 0), (0, 180)]
               (Some epochDate) ! (busesPerDirection + 0))
       = coords (makeVehicleAtFraction route15 [(0, 0), (0, 180)]
                   (fst (cumulativeDistances calculateDistance [(0, 0), (0, 180)]))
                   (snd (cumulativeDistances calculateDistance [(0, 0), (0, 180)])) epochDate
                   (jsub (Fin 1) (wrapFraction (prog_MapScreen epochDate 0))) 0 0)
   \<and> coords (generateSimulatedVehiclesForRoute_transportService route15 [(0, 0), (0, 180)] epochDate
               ! (busesPerDir + 0))
       = coords (placeVehicle route15 [(0, 0), (0, 180)]
                   (fst (cumulativeDistances calculateDistance_transportService [(0, 0), (0, 180)]))
                   (snd (cumulativeDistances calculateDistance_transportService [(0, 0), (0, 180)]))
                   epochDate
                   (jadd (jsub (Fin 1) (wrapFraction (prog_transportService epochDate 0)))
                         (jdiv (jdiv (Fin HEADWAY_MIN_transportService) (Fin 2))
                               (Fin TRIP_DURATION_MIN))) 0 0)"
proof -
  have l: "2 \<le> length [(0::real, 0::real), (0, 180)]" by simp
  have b: "0 < busesPerDirection" "0 < busesPerDir"
    by (simp_all add: busesPerDirection_eq busesPerDir_eq)
  have t: "snd (cumulativeDistances calculateDistance [(0, 0), (0, 180)]) \<noteq> Fin 0"
    by (simp add: cumulative_antipodal pathTotal_two distKm_antipodal)
  from direction_symmetry [OF l, of 0 epochDate route15 epochDate] b t l
  show ?thesis by (simp add: Let_def)
qed

lemma numToString_digits:
  "numToString 0 = ''0''" "numToString 1 = ''1''" "numToString 2 = ''2''"
  "numToString 3 = ''3''" "numToString 4 = ''4''" "numToString 5 = ''5''"
  "numToString (Suc 0) = ''1''"
  by code_simp+

lemma upt_6: "[0 ..< 6] = [0, 1, 2, 3, 4, 5::nat]"
  by (simp add: upt_conv_Cons)

lemma upt_3: "[0 ..< 3] = [0, 1, 2::nat]"
  by (simp add: upt_conv_Cons)

lemma vehicle_fields_makeVehicleAtFraction:
  "vehicle_id (makeVehicleAtFraction route sh cum tot now f i d) = vehicleId_MapScreen (route_id route) d i"
  "direction_id (makeVehicleAtFraction route sh cum tot now f i d) = d"
  "timestamp (makeVehicleAtFraction route sh cum tot now f i d) = getTime now"
  by (simp_all add: makeVehicleAtFraction_def vehicleId_MapScreen_def Let_def)

lemma vehicle_fields_placeVehicle:
  "vehicle_id (placeVehicle route sh cum tot now f d i) = vehicleId_transportService (route_id route) d i"
  "direction_id (placeVehicle route sh cum tot now f d i) = d"
  "timestamp (placeVehicle route sh cum tot now f d i) = getTime now"
  by (simp_all add: placeVehicle_def vehicleId_transportService_def Let_def)

lemma ids_generate_MapScreen:
  "map (\<lambda>v. (vehicle_id v, direction_id v))
       (generateSimulatedVehiclesForRoute_MapScreen clock route sh nowArg)
   = (if length sh < 2 \<or> snd (cumulativeDistances calculateDistance sh) = Fin 0 then []
      else map (\<lambda>i. (vehicleId_MapScreen (route_id route) 0 i, 0)) [0 ..< busesPerDirection]
         @ map (\<lambda>i. (vehicleId_MapScreen (route_id route) 1 i, 1)) [0 ..< busesPerDirection])"
  by (simp add: generateSimulatedVehiclesForRoute_MapScreen_def Let_def comp_def
      vehicle_fields_makeVehicleAtFraction jeq_def cumulativeDistances_MapScreen)

lemma ids_generate_transportService:
  "map (\<lambda>v. (vehicle_id v, direction_id v))
       (generateSimulatedVehiclesForRoute_transportService route sh now)
   = (if length sh < 2 then []
      else map (\<lambda>i. (vehicleId_transportService (route_id route) 0 i, 0)) [0 ..< busesPerDir]
         @ map (\<lambda>i. (vehicleId_transportService (route_id route) 1 i, 1)) [0 ..< busesPerDir])"
  by (simp add: generateSimulatedVehiclesForRoute_transportService_def Let_def comp_def
      vehicle_fields_placeVehicle)

lemma map_fst_ids: "map vehicle_id vs = map fst (map (\<lambda>v. (vehicle_id v, direction_id v)) vs)"
  by (simp add: comp_def)

lemma distinct_ids_MapScreen:
  "distinct (map (\<lambda>i. vehicleId_MapScreen rid 0 i) [0 ..< busesPerDirection]
             @ map (\<lambda>i. vehicleId_MapScreen rid 1 i) [0 ..< busesPerDirection])"
  by (simp add: busesPerDirection_eq upt_6 vehicleId_MapScreen_def numToString_digits)

lemma distinct_ids_transportService:
  "distinct (map (\<lambda>i. vehicleId_transportService rid 0 i) [0 ..< busesPerDir]
             @ map (\<lambda>i. vehicleId_transportService rid 1 i) [0 ..< busesPerDir])"
  by (simp add: busesPerDir_eq upt_3 vehicleId_transportService_def numToString_digits)

text \<open>
  Claim C7 (vehicle identifier stability). The list of identifiers (with the direction
  of each vehicle) that either copy returns is a function of the route id, the direction
  and the slot index alone: it is the same at every reference time, and the identifier
  of slot \<open>i\<close> in direction \<open>d\<close> is the fixed composite string of the route id, \<open>d\<close>
  and \<open>i\<close>.
\<close>

theorem vehicle_id_stable:
  "map (\<lambda>v. (vehicle_id v, direction_id v))
       (generateSimulatedVehiclesForRoute_MapScreen clock route shapePoints nowArg)
     = (if length shapePoints < 2 \<or> snd (cumulativeDistances calculateDistance shapePoints) = Fin 0
        then []
        else map (\<lambda>i. (''SIM-'' @ route_id route @ ''-'' @ numToString 0 @ ''-'' @ numToString i, 0))
                 [0 ..< busesPerDirection]
           @ map (\<lambda>i. (''SIM-'' @ route_id route @ ''-'' @ numToString 1 @ ''-'' @ numToString i, 1))
                 [0 ..< busesPerDirection])
   \<and> map (\<lambda>v. (vehicle_id v, direction_id v))
       (generateSimulatedVehiclesForRoute_transportService route shapePoints now)
     = (if length shapePoints < 2 then []
        else map (\<lambda>i. (''GTFS-'' @ route_id route @ ''-'' @ numToString 0 @ ''-'' @ numToString i, 0))
                 [0 ..< busesPerDir]
           @ map (\<lambda>i. (''GTFS-'' @ route_id route @ ''-'' @ numToString 1 @ ''-'' @ numToString i, 1))
                 [0 ..< busesPerDir])
   \<and> map vehicle_id (generateSimulatedVehiclesForRoute_MapScreen clock route shapePoints (Some now))
     = map vehicle_id (generateSimulatedVehiclesForRoute_MapScreen clock' route shapePoints (Some now'))
   \<and> map vehicle_id (generateSimulatedVehiclesForRoute_transportService route shapePoints now)
     = map vehicle_id (generateSimulatedVehiclesForRoute_transportService route shapePoints now')"
proof (intro conjI)
  show "map vehicle_id (generateSimulatedVehiclesForRoute_MapScreen clock route shapePoints (Some now))
     = map vehicle_id (generateSimulatedVehiclesForRoute_MapScreen clock' route shapePoints (Some now'))"
    unfolding map_fst_ids ids_generate_MapScreen ..
  show "map vehicle_id (generateSimulatedVehiclesForRoute_transportService route shapePoints now)
     = map vehicle_id (generateSimulatedVehiclesForRoute_transportService route shapePoints now')"
    unfolding map_fst_ids ids_generate_transportService ..
qed (simp_all only: ids_generate_MapScreen ids_generate_transportService
       vehicleId_MapScreen_def vehicleId_transportService_def)

lemma timestamps_generate_MapScreen:
  "map timestamp (generateSimulatedVehiclesForRoute_MapScreen clock route sh nowArg)
     = replicate (length (generateSimulatedVehiclesForRoute_MapScreen clock route sh nowArg))
         (getTime (case nowArg of None \<Rightarrow> clock | Some d \<Rightarrow> d))"
  by (simp add: generateSimulatedVehiclesForRoute_MapScreen_def Let_def comp_def
      vehicle_fields_makeVehicleAtFraction map_replicate_const replicate_add [symmetric])

lemma timestamps_generate_transportService:
  "map timestamp (generateSimulatedVehiclesForRoute_transportService route sh now)
     = replicate (length (generateSimulatedVehiclesForRoute_transportService route sh now))
         (getTime now)"
  by (simp add: generateSimulatedVehiclesForRoute_transportService_def Let_def comp_def
      vehicle_fields_placeVehicle map_replicate_const replicate_add [symmetric])

text \<open>
  Claim C10. Within one returned list the identifiers are pairwise distinct, and every
  vehicle carries the same timestamp: \<open>getTime\<close> of the reference time of that
  invocation (the clock reading, when MapScreen.tsx is called without a time).
\<close>

theorem vehicle_ids_distinct_timestamps_equal:
  "distinct (map vehicle_id (generateSimulatedVehiclesForRoute_MapScreen clock route shapePoints nowArg))
   \<and> map timestamp (generateSimulatedVehiclesForRoute_MapScreen clock route shapePoints nowArg)
     = replicate (length (generateSimulatedVehiclesForRoute_MapScreen clock route shapePoints nowArg))
         (getTime (case nowArg of None \<Rightarrow> clock | Some d \<Rightarrow> d))
   \<and> distinct (map vehicle_id (generateSimulatedVehiclesForRoute_transportService route shapePoints now))
   \<and> map timestamp (generateSimulatedVehiclesForRoute_transportService route shapePoints now)
     = replicate (length (generateSimulatedVehiclesForRoute_transportService route shapePoints now))
         (getTime now)"
proof (intro conjI)
  show "distinct (map vehicle_id
          (generateSimulatedVehiclesForRoute_MapScreen clock route shapePoints nowArg))"
    unfolding map_fst_ids ids_generate_MapScreen
    using distinct_ids_MapScreen [of "route_id route"] by (simp add: comp_def)
  show "distinct (map vehicle_id
          (generateSimulatedVehiclesForRoute_transportService route shapePoints now))"
    unfolding map_fst_ids ids_generate_transportService
    using distinct_ids_transportService [of "route_id route"] by (simp add: comp_def)
qed (simp_all only: timestamps_generate_MapScreen timestamps_generate_transportService)

lemma coords_generate_MapScreen_clock:
  assumes "getHours now = getHours now'" "getMinutes now = getMinutes now'"
    "getSeconds now = getSeconds now'"
  shows "map coords (generateSimulatedVehiclesForRoute_MapScreen clock route sh (Some now))
       = map coords (generateSimulatedVehiclesForRoute_MapScreen clock' route' sh (Some now'))"
  using assms
  by (simp add: generateSimulatedVehiclesForRoute_MapScreen_def Let_def comp_def
      makeVehicleAtFraction_def coords_def)

lemma coords_generate_transportService_clock:
  assumes "getHours now = getHours now'" "getMinutes now = getMinutes now'"
    "getSeconds now = getSeconds now'"
  shows "map coords (generateSimulatedVehiclesForRoute_transportService route sh now)
       = map coords (generateSimulatedVehiclesForRoute_transportService route' sh now')"
  using assms
  by (simp add: generateSimulatedVehiclesForRoute_transportService_def Let_def comp_def
      placeVehicle_def coords_def)

text \<open>
  Claim C2 (determinism). Two invocations with the same route, path and reference
  timestamp return the same list, whatever the ambient clock reads at either invocation:
  MapScreen.tsx reads the clock only when no timestamp is passed, and
  transportService.ts has no input but its three arguments. Moreover the coordinates
  depend on the timestamp only through its local hours, minutes and seconds, and not on
  the route at all.
\<close>

theorem generator_deterministic:
  "(route = route' \<and> shapePoints = shapePoints' \<and> now = now' \<longrightarrow>
      generateSimulatedVehiclesForRoute_MapScreen clock route shapePoints (Some now)
        = generateSimulatedVehiclesForRoute_MapScreen clock' route' shapePoints' (Some now')
      \<and> generateSimulatedVehiclesForRoute_transportService route shapePoints now
        = generateSimulatedVehiclesForRoute_transportService route' shapePoints' now')
   \<and> (shapePoints = shapePoints' \<and> getHours now = getHours now'
        \<and> getMinutes now = getMinutes now' \<and> getSeconds now = getSeconds now' \<longrightarrow>
      map coords (generateSimulatedVehiclesForRoute_MapScreen clock route shapePoints (Some now))
        = map coords (generateSimulatedVehiclesForRoute_MapScreen clock' route' shapePoints' (Some now'))
      \<and> map coords (generateSimulatedVehiclesForRoute_transportService route shapePoints now)
        = map coords (generateSimulatedVehiclesForRoute_transportService route' shapePoints' now'))"
proof (intro conjI impI)
  assume "route = route' \<and> shapePoints = shapePoints' \<and> now = now'"
  then show "generateSimulatedVehiclesForRoute_MapScreen clock route shapePoints (Some now)
        = generateSimulatedVehiclesForRoute_MapScreen clock' route' shapePoints' (Some now')"
    by (simp add: generateSimulatedVehiclesForRoute_MapScreen_def)
next
  assume "route = route' \<and> shapePoints = shapePoints' \<and> now = now'"
  then show "generateSimulatedVehiclesForRoute_transportService route shapePoints now
        = generateSimulatedVehiclesForRoute_transportService route' shapePoints' now'"
    by simp
next
  assume a: "shapePoints = shapePoints' \<and> getHours now = getHours now'
        \<and> getMinutes now = getMinutes now' \<and> getSeconds now = getSeconds now'"
  then show "map coords (generateSimulatedVehiclesForRoute_MapScreen clock route shapePoints (Some now))
        = map coords (generateSimulatedVehiclesForRoute_MapScreen clock' route' shapePoints' (Some now'))"
    using coords_generate_MapScreen_clock [of now now' clock route shapePoints clock' route'] by simp
  from a show "map coords (generateSimulatedVehiclesForRoute_transportService route shapePoints now)
        = map coords (generateSimulatedVehiclesForRoute_transportService route' shapePoints' now')"
    using coords_generate_transportService_clock [of now now' route shapePoints route'] by simp
qed

theorem generator_deterministic_witness:
  "getHours epochDate = getHours nextDay \<and> getMinutes epochDate = getMinutes nextDay
   \<and> getSeconds epochDate = getSeconds nextDay
   \<and> generateSimulatedVehiclesForRoute_MapScreen epochDate route15 [(0, 0), (0, 180)] (Some epochDate)
       = generateSimulatedVehiclesForRoute_MapScreen nextDay route15 [(0, 0), (0, 180)] (Some epochDate)
   \<and> generateSimulatedVehiclesForRoute_transportService route15 [(0, 0), (0, 180)] epochDate
       = generateSimulatedVehiclesForRoute_transportService route15 [(0, 0), (0, 180)] epochDate
   \<and> map coords (generateSimulatedVehiclesForRoute_MapScreen epochDate route15 [(0, 0), (0, 180)]
                   (Some epochDate))
       = map coords (generateSimulatedVehiclesForRoute_MapScreen nextDay route15 [(0, 0), (0, 180)]
                       (Some nextDay))
   \<and> map coords (generateSimulatedVehiclesForRoute_transportService route15 [(0, 0), (0, 180)] epochDate)
       = map coords (generateSimulatedVehiclesForRoute_transportService route15 [(0, 0), (0, 180)] nextDay)"
proof -
  have g: "getHours epochDate = getHours nextDay" "getMinutes epochDate = getMinutes nextDay"
    "getSeconds epochDate = getSeconds nextDay"
    by (simp_all add: getHours_def getMinutes_def getSeconds_def epochDate_def nextDay_def)
  from generator_deterministic [of route15 route15 "[(0, 0), (0, 180)]" "[(0, 0), (0, 180)]"
      epochDate epochDate epochDate nextDay]
    generator_deterministic [of route15 route15 "[(0, 0), (0, 180)]" "[(0, 0), (0, 180)]"
      epochDate nextDay epochDate nextDay] g
  show ?thesis by simp
qed

lemma getTime_invalid: "timeValue now = None \<Longrightarrow> getTime now = NaN"
  by (simp add: getTime_def)

lemma placeVehicle_NaN:
  "coords (placeVehicle route sh cum tot now NaN d i) = (NaN, NaN)"
  by (simp add: placeVehicle_def coords_def Let_def jsub_def)

lemma generate_transportService_invalid:
  assumes "2 \<le> length sh" "timeValue now = None"
  shows "map (\<lambda>v. (latitude v, longitude v, timestamp v))
             (generateSimulatedVehiclesForRoute_transportService route sh now)
           = replicate (2 * busesPerDir) (NaN, NaN, NaN)"
proof -
  have c: "\<And>d i. latitude (placeVehicle route sh (map Fin (pathCumulative sh)) (Fin (pathTotal sh)) now NaN d i) = NaN
      \<and> longitude (placeVehicle route sh (map Fin (pathCumulative sh)) (Fin (pathTotal sh)) now NaN d i) = NaN"
    using placeVehicle_NaN [of route sh "map Fin (pathCumulative sh)" "Fin (pathTotal sh)" now]
    by (simp add: coords_def)
  show ?thesis
    using assms
    by (simp add: generateSimulatedVehiclesForRoute_transportService_def Let_def timeVal_invalid
        cumulativeDistances_transportService jsub_def comp_def c vehicle_fields_placeVehicle
        getTime_invalid map_replicate_const replicate_add [symmetric] mult_2)
qed

lemma makeVehicleAtFraction_NaN:
  assumes "2 \<le> length sh" "pathCumulative sh ! 1 \<noteq> 0"
  shows "coords (makeVehicleAtFraction route sh (map Fin (pathCumulative sh)) (Fin (pathTotal sh))
                   now NaN i d) = (NaN, NaN)"
proof -
  have ne: "sh \<noteq> []" using assms by auto
  have len: "length (pathCumulative sh) = length sh" by (rule pathCumulative_length [OF ne])
  have m: "min (Suc 0) (length sh - Suc 0) = Suc 0" using assms(1) by simp
  have p: "0 < length (pathCumulative sh)" "Suc 0 < length (pathCumulative sh)"
    using assms(1) len by linarith+
  have n0: "map Fin (pathCumulative sh) ! 0 = Fin 0"
    by (simp only: nth_map [OF p(1)] pathCumulative_0)
  have n1: "map Fin (pathCumulative sh) ! Suc 0 = Fin (pathCumulative sh ! Suc 0)"
    by (simp only: nth_map [OF p(2)])
  show ?thesis
    using assms(2)
    by (simp add: makeVehicleAtFraction_def coords_def Let_def findSegment_NaN m len n0 n1
        jeq_def jsub_def)
qed

lemma generate_MapScreen_invalid:
  assumes "2 \<le> length sh" "timeValue now = None" "pathCumulative sh ! 1 \<noteq> 0"
  shows "map coords (generateSimulatedVehiclesForRoute_MapScreen clock route sh (Some now))
           = replicate (length (generateSimulatedVehiclesForRoute_MapScreen clock route sh (Some now)))
               (NaN, NaN)"
  using assms
  by (simp add: generateSimulatedVehiclesForRoute_MapScreen_def Let_def timeVal_invalid
      cumulativeDistances_MapScreen jsub_def comp_def makeVehicleAtFraction_NaN
      map_replicate_const replicate_add [symmetric])

lemma first_cumulative:
  assumes "2 \<le> length sh"
  shows "fst (cumulativeDistances calculateDistance sh) ! Suc 0 = Fin (pathCumulative sh ! Suc 0)"
proof -
  have ne: "sh \<noteq> []" using assms by auto
  have "Suc 0 < length (pathCumulative sh)"
    using assms pathCumulative_length [OF ne] by simp
  then show ?thesis by (simp add: cumulativeDistances_MapScreen)
qed

lemma coords_eta: "coords = (\<lambda>v. (latitude v, longitude v))"
  by (rule ext) (simp add: coords_def)

text \<open>
  Claim C9 (malformed time), as amended. Neither copy validates the reference time.
  Given an Invalid Date and a path of at least two points, transportService.ts returns
  its six vehicles, each with \<open>NaN\<close> latitude, longitude and timestamp; MapScreen.tsx
  returns its usual number of vehicles, each with \<open>NaN\<close> timestamp, and with \<open>NaN\<close>
  coordinates whenever the first segment of the path has non-zero length.
\<close>

theorem invalid_timestamp_propagates:
  assumes "2 \<le> length shapePoints" and "timeValue now = None"
  shows "map (\<lambda>v. (latitude v, longitude v, timestamp v))
             (generateSimulatedVehiclesForRoute_transportService route shapePoints now)
           = replicate (2 * busesPerDir) (NaN, NaN, NaN)
       \<and> length (generateSimulatedVehiclesForRoute_MapScreen clock route shapePoints (Some now))
           = (if snd (cumulativeDistances calculateDistance shapePoints) = Fin 0 then 0
              else 2 * busesPerDirection)
       \<and> map timestamp (generateSimulatedVehiclesForRoute_MapScreen clock route shapePoints (Some now))
           = replicate (length (generateSimulatedVehiclesForRoute_MapScreen clock route shapePoints
                                  (Some now))) NaN
       \<and> (fst (cumulativeDistances calculateDistance shapePoints) ! 1 \<noteq> Fin 0 \<longrightarrow>
            map coords (generateSimulatedVehiclesForRoute_MapScreen clock route shapePoints (Some now))
              = replicate (length (generateSimulatedVehiclesForRoute_MapScreen clock route shapePoints
                                     (Some now))) (NaN, NaN))"
proof (intro conjI impI)
  show "map (\<lambda>v. (latitude v, longitude v, timestamp v))
             (generateSimulatedVehiclesForRoute_transportService route shapePoints now)
           = replicate (2 * busesPerDir) (NaN, NaN, NaN)"
    by (rule generate_transportService_invalid [OF assms])
  show "length (generateSimulatedVehiclesForRoute_MapScreen clock route shapePoints (Some now))
           = (if snd (cumulativeDistances calculateDistance shapePoints) = Fin 0 then 0
              else 2 * busesPerDirection)"
    using assms(1) by (simp add: length_generate_MapScreen cumulativeDistances_MapScreen)
  show "map timestamp (generateSimulatedVehiclesForRoute_MapScreen clock route shapePoints (Some now))
           = replicate (length (generateSimulatedVehiclesForRoute_MapScreen clock route shapePoints
                                  (Some now))) NaN"
    using assms(2) by (simp add: timestamps_generate_MapScreen getTime_invalid)
  assume "fst (cumulativeDistances calculateDistance shapePoints) ! 1 \<noteq> Fin 0"
  then have "pathCumulative shapePoints ! 1 \<noteq> 0"
    by (simp add: first_cumulative [OF assms(1)])
  then show "map coords (generateSimulatedVehiclesForRoute_MapScreen clock route shapePoints (Some now))
              = replicate (length (generateSimulatedVehiclesForRoute_MapScreen clock route shapePoints
                                     (Some now))) (NaN, NaN)"
    by (rule generate_MapScreen_invalid [OF assms])
qed

text \<open>
  Claim C9 as stated fails: on the path \<open>[(0,0), (0,180)]\<close> with an Invalid Date both
  copies return their full list, with \<open>NaN\<close> coordinates, instead of rejecting the call.
\<close>

theorem invalid_timestamp_counterexample:
  "map coords (generateSimulatedVehiclesForRoute_transportService route15 [(0, 0), (0, 180)]
                 invalidDate)
     = [(NaN, NaN), (NaN, NaN), (NaN, NaN), (NaN, NaN), (NaN, NaN), (NaN, NaN)]
   \<and> map coords (generateSimulatedVehiclesForRoute_MapScreen epochDate route15 [(0, 0), (0, 180)]
                   (Some invalidDate))
     = replicate 12 (NaN, NaN)"
proof -
  have l: "2 \<le> length [(0::real, 0::real), (0, 180)]" by simp
  have t: "timeValue invalidDate = None" by (simp add: invalidDate_def)
  have c: "pathCumulative [(0, 0), (0, 180)] ! 1 \<noteq> 0"
    by (simp add: pathCumulative_two distKm_antipodal)
  have n: "length (generateSimulatedVehiclesForRoute_MapScreen epochDate route15 [(0, 0), (0, 180)]
                   (Some invalidDate)) = 12"
    by (simp add: length_generate_MapScreen pathTotal_two distKm_antipodal busesPerDirection_eq)
  have "map (\<lambda>v. (latitude v, longitude v, timestamp v))
             (generateSimulatedVehiclesForRoute_transportService route15 [(0, 0), (0, 180)] invalidDate)
           = replicate (2 * busesPerDir) (NaN, NaN, NaN)"
    by (rule generate_transportService_invalid [OF l t])
  then have "map (\<lambda>p. (fst p, fst (snd p))) (map (\<lambda>v. (latitude v, longitude v, timestamp v))
             (generateSimulatedVehiclesForRoute_transportService route15 [(0, 0), (0, 180)] invalidDate))
           = map (\<lambda>p. (fst p, fst (snd p))) (replicate (2 * busesPerDir) (NaN, NaN, NaN))"
    by simp
  then have "map coords (generateSimulatedVehiclesForRoute_transportService route15 [(0, 0), (0, 180)]
                 invalidDate) = replicate 6 (NaN, NaN)"
    by (simp add: comp_def coords_eta busesPerDir_eq)
  moreover have "replicate 6 (NaN, NaN) = [(NaN, NaN), (NaN, NaN), (NaN, NaN), (NaN, NaN), (NaN, NaN), (NaN, NaN)]"
    by (simp add: numeral_eq_Suc)
  ultimately show ?thesis
    using generate_MapScreen_invalid [OF l t c, of epochDate route15] n by simp
qed

theorem invalid_timestamp_propagates_witness:
  "2 \<le> length [(0::real, 0::real), (0, 180)] \<and> timeValue invalidDate = None
   \<and> fst (cumulativeDistances calculateDistance [(0, 0), (0, 180)]) ! 1 \<noteq> Fin 0
   \<and> map (\<lambda>v. (latitude v, longitude v, timestamp v))
          (generateSimulatedVehiclesForRoute_transportService route15 [(0, 0), (0, 180)] invalidDate)
       = replicate (2 * busesPerDir) (NaN, NaN, NaN)
   \<and> length (generateSimulatedVehiclesForRoute_MapScreen epochDate route15 [(0, 0), (0, 180)]
                (Some invalidDate)) = 2 * busesPerDirection
   \<and> map coords (generateSimulatedVehiclesForRoute_MapScreen epochDate route15 [(0, 0), (0, 180)]
                   (Some invalidDate))
       = replicate (2 * busesPerDirection) (NaN, NaN)"
proof -
  have l: "2 \<le> length [(0::real, 0::real), (0, 180)]" by simp
  have t: "timeValue invalidDate = None" by (simp add: invalidDate_def)
  have c: "fst (cumulativeDistances calculateDistance [(0, 0), (0, 180)]) ! 1 \<noteq> Fin 0"
    by (simp add: cumulative_antipodal pathCumulative_two distKm_antipodal)
  have s: "snd (cumulativeDistances calculateDistance [(0, 0), (0, 180)]) \<noteq> Fin 0"
    by (simp add: cumulative_antipodal pathTotal_two distKm_antipodal)
  from invalid_timestamp_propagates [OF l t, of route15 epochDate] c s l t
  show ?thesis by simp
qed

lemma distKm_meridian:
  assumes "0 \<le> c - a" "c - a < 180"
  shows "distKm a b c b = 6371 * ((c - a) * (pi / 180))"
proof -
  define th where "th = (c - a) * (pi / 180) / 2"
  have "(c - a) * (pi / 180) < 180 * (pi / 180)"
    using assms(2) by (intro mult_strict_right_mono) simp_all
  then have th: "0 \<le> th" "th < pi / 2"
    using assms(1) by (simp_all add: th_def)
  have c: "0 < cos th" using th by (intro cos_gt_zero_pi) simp_all
  have s: "0 \<le> sin th" using th pi_gt_zero by (intro sin_ge_zero) simp_all
  have h: "haversineA a b c b = sin th * sin th"
    by (simp add: haversineA_def th_def)
  have "1 - sin th * sin th = cos th * cos th"
    using sin_cos_squared_add [of th] by (simp add: power2_eq_square algebra_simps)
  then have q: "sqrt (1 - sin th * sin th) = cos th" using c by simp
  have p: "sqrt (sin th * sin th) = sin th" using s by simp
  have "atan2 (sin th) (cos th) = arctan (tan th)" using c by (simp add: atan2_def tan_def)
  also have "\<dots> = th" using th by (intro arctan_tan) simp_all
  finally have "distKm a b c b = 6371 * (2 * th)"
    by (simp only: distKm_def h p q)
  then show ?thesis by (simp add: th_def)
qed

text \<open>
  Claim C8 (interpolator snap rule). When the distance from the displayed coordinate to
  the new target exceeds 500, \<open>setLatLngSmooth\<close> sets the displayed coordinate to the
  target itself and requests no animation frame: the only change to the scheduler is
  the cancellation of a frame that was pending.
\<close>

theorem interpolator_snap:
  assumes "jlt (Fin 500) (distanceTo (latlng (marker w)) target)"
  shows "latlng (marker (setLatLngSmooth distanceTo t0 t1 target dur w)) = target
       \<and> targetLatLng (marker (setLatLngSmooth distanceTo t0 t1 target dur w)) = target
       \<and> nextFrameId (setLatLngSmooth distanceTo t0 t1 target dur w) = nextFrameId w
       \<and> pendingFrames (setLatLngSmooth distanceTo t0 t1 target dur w)
           = (case animationFrameId (marker w) of
                None \<Rightarrow> pendingFrames w
              | Some h \<Rightarrow> if h \<noteq> 0 then removeAll h (pendingFrames w) else pendingFrames w)"
  using assms
  by (simp add: setLatLngSmooth_def Let_def cancelAnimationFrame_def split: option.splits)

lemma distanceMetres_example:
  "distanceMetres \<lparr>lat = Fin 53, lng = Fin (- 6)\<rparr> \<lparr>lat = Fin (531 / 10), lng = Fin (- 6)\<rparr>
     = Fin (1000 * (6371 * (1 / 10 * (pi / 180))))"
proof -
  have "distKm 53 (- 6) (531 / 10) (- 6) = 6371 * ((531 / 10 - 53) * (pi / 180))"
    by (rule distKm_meridian) simp_all
  then show ?thesis by (simp add: distanceMetres_def calculateDistance_Fin)
qed

theorem interpolator_snap_witness:
  "jlt (Fin 500)
       (distanceMetres (latlng (marker (markerAt \<lparr>lat = Fin 53, lng = Fin (- 6)\<rparr>)))
          \<lparr>lat = Fin (531 / 10), lng = Fin (- 6)\<rparr>)
   \<and> latlng (marker (setLatLngSmooth distanceMetres (Fin 0) (Fin 16)
                        \<lparr>lat = Fin (531 / 10), lng = Fin (- 6)\<rparr> (Fin 2000)
                        (markerAt \<lparr>lat = Fin 53, lng = Fin (- 6)\<rparr>)))
       = \<lparr>lat = Fin (531 / 10), lng = Fin (- 6)\<rparr>
   \<and> pendingFrames (setLatLngSmooth distanceMetres (Fin 0) (Fin 16)
                        \<lparr>lat = Fin (531 / 10), lng = Fin (- 6)\<rparr> (Fin 2000)
                        (markerAt \<lparr>lat = Fin 53, lng = Fin (- 6)\<rparr>)) = []"
proof -
  have "500 < 1000 * (6371 * (1 / 10 * (2 / 180 :: real)))" by simp
  also have "\<dots> \<le> 1000 * (6371 * (1 / 10 * (pi / 180)))"
    using pi_ge_two by simp
  finally have d: "jlt (Fin 500)
       (distanceMetres (latlng (marker (markerAt \<lparr>lat = Fin 53, lng = Fin (- 6)\<rparr>)))
          \<lparr>lat = Fin (531 / 10), lng = Fin (- 6)\<rparr>)"
    by (simp add: markerAt_def distanceMetres_example)
  from interpolator_snap [where distanceTo = distanceMetres
      and w = "markerAt \<lparr>lat = Fin 53, lng = Fin (- 6)\<rparr>"
      and target = "\<lparr>lat = Fin (531 / 10), lng = Fin (- 6)\<rparr>"
      and ?t0.0 = "Fin 0" and ?t1.0 = "Fin 16" and dur = "Fin 2000", OF d] d
  show ?thesis by (simp add: markerAt_def)
qed

section \<open>Periodicity\<close>

lemma prog_MapScreen_valid:
  "timeValue now = Some t \<Longrightarrow>
     prog_MapScreen now i = Fin (progress_MapScreen (t + localTZA now) i)"
  by (simp add: prog_MapScreen_def timeVal_valid progress_MapScreen_def)

lemma prog_transportService_valid:
  "timeValue now = Some t \<Longrightarrow>
     prog_transportService now i = Fin (progress_transportService (t + localTZA now) i)"
  by (simp add: prog_transportService_def timeVal_valid progress_transportService_def)

lemma prog_invalid:
  "timeValue now = None \<Longrightarrow> prog_MapScreen now i = NaN \<and> prog_transportService now i = NaN"
  by (simp add: prog_MapScreen_def prog_transportService_def timeVal_invalid jsub_def)

lemma getters_invalid:
  "timeValue now = None \<Longrightarrow>
     getHours now = NaN \<and> getMinutes now = NaN \<and> getSeconds now = NaN"
  by (simp add: getHours_def getMinutes_def getSeconds_def)

lemma periodic_MapScreen:
  assumes "advancedBy TRIP_MIN now later"
    and "localTZA later = localTZA now + j * \<lfloor>TRIP_MIN * 60000\<rfloor>"
  shows "wrapFraction (prog_MapScreen later i) = wrapFraction (prog_MapScreen now i)"
    and "map coords (generateSimulatedVehiclesForRoute_MapScreen clock route sh (Some later))
       = map coords (generateSimulatedVehiclesForRoute_MapScreen clock route sh (Some now))"
proof -
  show "wrapFraction (prog_MapScreen later i) = wrapFraction (prog_MapScreen now i)"
  proof (cases "timeValue now")
    case None
    then have "timeValue later = None" using assms(1) by (simp add: advancedBy_def)
    with None show ?thesis by (simp add: prog_invalid)
  next
    case (Some t)
    have v: "timeValue later = Some (t + 3600000)"
      using assms(1) Some by (simp add: advancedBy_def TRIP_MIN_def)
    have z: "t + 3600000 + localTZA later = (t + localTZA now) + (1 + j) * 3600000"
      using assms(2) by (simp add: TRIP_MIN_def algebra_simps)
    obtain k :: int where "progress_MapScreen ((t + localTZA now) + (1 + j) * 3600000) i
        = progress_MapScreen (t + localTZA now) i + of_int k"
      using progress_MapScreen_shift by blast
    then show ?thesis
      unfolding prog_MapScreen_valid [OF v] prog_MapScreen_valid [OF Some] z wrapFraction_Fin
      by simp
  qed
  show "map coords (generateSimulatedVehiclesForRoute_MapScreen clock route sh (Some later))
       = map coords (generateSimulatedVehiclesForRoute_MapScreen clock route sh (Some now))"
  proof (cases "timeValue now")
    case None
    then have "timeValue later = None" using assms(1) by (simp add: advancedBy_def)
    with None show ?thesis
      by (intro coords_generate_MapScreen_clock) (simp_all add: getters_invalid)
  next
    case (Some t)
    have v: "timeValue later = Some (t + 3600000)"
      using assms(1) Some by (simp add: advancedBy_def TRIP_MIN_def)
    have z: "t + 3600000 + localTZA later = (t + localTZA now) + (1 + j) * 3600000"
      using assms(2) by (simp add: TRIP_MIN_def algebra_simps)
    show ?thesis
    proof (cases "2 \<le> length sh \<and> pathTotal sh \<noteq> 0")
      case False
      then show ?thesis by (auto simp: generate_MapScreen_empty)
    next
      case True
      then have len: "2 \<le> length sh" and tot: "pathTotal sh \<noteq> 0" by simp_all
      show ?thesis
        unfolding coords_generate_MapScreen [OF v len tot] coords_generate_MapScreen [OF Some len tot]
          z pointAt_progress_MapScreen ..
    qed
  qed
qed

lemma periodic_transportService:
  assumes "advancedBy TRIP_DURATION_MIN now later"
    and "localTZA later = localTZA now + j * \<lfloor>TRIP_DURATION_MIN * 60000\<rfloor>"
  shows "wrapFraction (prog_transportService later i) = wrapFraction (prog_transportService now i)"
    and "map coords (generateSimulatedVehiclesForRoute_transportService route sh later)
       = map coords (generateSimulatedVehiclesForRoute_transportService route sh now)"
proof -
  show "wrapFraction (prog_transportService later i) = wrapFraction (prog_transportService now i)"
  proof (cases "timeValue now")
    case None
    then have "timeValue later = None" using assms(1) by (simp add: advancedBy_def)
    with None show ?thesis by (simp add: prog_invalid)
  next
    case (Some t)
    have v: "timeValue later = Some (t + 2700000)"
      using assms(1) Some by (simp add: advancedBy_def TRIP_DURATION_MIN_def)
    have z: "t + 2700000 + localTZA later = (t + localTZA now) + (1 + j) * 2700000"
      using assms(2) by (simp add: TRIP_DURATION_MIN_def algebra_simps)
    obtain k :: int where "progress_transportService ((t + localTZA now) + (1 + j) * 2700000) i
        = progress_transportService (t + localTZA now) i + of_int k"
      using progress_transportService_shift by blast
    then show ?thesis
      unfolding prog_transportService_valid [OF v] prog_transportService_valid [OF Some] z
        wrapFraction_Fin
      by simp
  qed
  show "map coords (generateSimulatedVehiclesForRoute_transportService route sh later)
       = map coords (generateSimulatedVehiclesForRoute_transportService route sh now)"
  proof (cases "timeValue now")
    case None
    then have "timeValue later = None" using assms(1) by (simp add: advancedBy_def)
    with None show ?thesis
      by (intro coords_generate_transportService_clock) (simp_all add: getters_invalid)
  next
    case (Some t)
    have v: "timeValue later = Some (t + 2700000)"
      using assms(1) Some by (simp add: advancedBy_def TRIP_DURATION_MIN_def)
    have z: "t + 2700000 + localTZA later = (t + localTZA now) + (1 + j) * 2700000"
      using assms(2) by (simp add: TRIP_DURATION_MIN_def algebra_simps)
    show ?thesis
    proof (cases "2 \<le> length sh")
      case False
      then show ?thesis by (simp add: generate_transportService_empty)
    next
      case len: True
      show ?thesis
        unfolding coords_generate_transportService [OF v len]
          coords_generate_transportService [OF Some len] z pointAt_progress_transportService ..
    qed
  qed
qed

text \<open>
  Claim C3 (periodicity), as amended. Let \<open>later\<close> be the reference time advanced by
  exactly the trip duration (\<open>TRIP_MIN\<close> = 60 minutes in MapScreen.tsx,
  \<open>TRIP_DURATION_MIN\<close> = 45 minutes in transportService.ts). If the local offset from UTC
  at \<open>later\<close> is the one at \<open>now\<close>, or differs from it by a whole number \<open>j\<close> of trip
  durations, then the wrapped progress of every slot and the coordinates of every
  vehicle of the returned list are the same at both times, also across midnight. The
  generator reads local time, so the offset matters. Numbers are exact here, so the
  equality is exact.
\<close>

theorem positions_periodic:
  "(advancedBy TRIP_MIN now later
      \<and> localTZA later = localTZA now + j * \<lfloor>TRIP_MIN * 60000\<rfloor> \<longrightarrow>
        wrapFraction (prog_MapScreen later i) = wrapFraction (prog_MapScreen now i)
        \<and> map coords (generateSimulatedVehiclesForRoute_MapScreen clock route shapePoints (Some later))
          = map coords (generateSimulatedVehiclesForRoute_MapScreen clock route shapePoints (Some now)))
   \<and> (advancedBy TRIP_DURATION_MIN now later
      \<and> localTZA later = localTZA now + j * \<lfloor>TRIP_DURATION_MIN * 60000\<rfloor> \<longrightarrow>
        wrapFraction (prog_transportService later i) = wrapFraction (prog_transportService now i)
        \<and> map coords (generateSimulatedVehiclesForRoute_transportService route shapePoints later)
          = map coords (generateSimulatedVehiclesForRoute_transportService route shapePoints now))"
  using periodic_MapScreen periodic_transportService by blast

lemma timeVal_summerTime:
  "jadd (jadd (jmul (getHours beforeSummerTime) (Fin 60)) (getMinutes beforeSummerTime))
        (jdiv (getSeconds beforeSummerTime) (Fin 60)) = Fin 30"
  "jadd (jadd (jmul (getHours summerTime45) (Fin 60)) (getMinutes summerTime45))
        (jdiv (getSeconds summerTime45) (Fin 60)) = Fin 135"
  by (simp_all add: getHours_def getMinutes_def getSeconds_def beforeSummerTime_def
      summerTime45_def)

text \<open>
  Claim C3 as stated fails in transportService.ts when the advance crosses a change of
  the local offset. On the path \<open>[(0,0), (0,180)]\<close>, at 00:30 UTC on 2026-03-29 (local
  00:30 in Dublin) the direction-0 vehicle of slot 0 is at \<open>(0, 120)\<close>; 45 minutes later
  summer time has begun, the local time is 02:15, and the same vehicle is at \<open>(0, 0)\<close>.
\<close>

theorem positions_periodic_counterexample:
  "advancedBy TRIP_DURATION_MIN beforeSummerTime summerTime45
   \<and> coords (generateSimulatedVehiclesForRoute_transportService route15 [(0, 0), (0, 180)]
               beforeSummerTime ! 0) = (Fin 0, Fin 120)
   \<and> coords (generateSimulatedVehiclesForRoute_transportService route15 [(0, 0), (0, 180)]
               summerTime45 ! 0) = (Fin 0, Fin 0)"
proof -
  have l: "2 \<le> length [(0::real, 0::real), (0, 180)]" by simp
  have b: "0 < busesPerDir" by (simp add: busesPerDir_eq)
  have a: "advancedBy TRIP_DURATION_MIN beforeSummerTime summerTime45"
    by (simp add: advancedBy_def beforeSummerTime_def summerTime45_def TRIP_DURATION_MIN_def)
  have p: "pointAt [(0, 0), (0, 180)] 3 = pointAt [(0, 0), (0, 180)] 0"
    by (rule pointAt_frac) simp
  have "coords (generateSimulatedVehiclesForRoute_transportService route15 [(0, 0), (0, 180)]
               beforeSummerTime ! 0) = pointAt [(0, 0), (0, 180)] (2 / 3)"
    unfolding nth_generate_transportService(1) [OF l b] prog_transportService_def timeVal_summerTime
      cumulative_antipodal fst_conv snd_conv
    by (simp add: HEADWAY_MIN_transportService_def TRIP_DURATION_MIN_def coords_placeVehicle)
  moreover have "coords (generateSimulatedVehiclesForRoute_transportService route15 [(0, 0), (0, 180)]
               summerTime45 ! 0) = pointAt [(0, 0), (0, 180)] 3"
    unfolding nth_generate_transportService(1) [OF l b] prog_transportService_def timeVal_summerTime
      cumulative_antipodal fst_conv snd_conv
    by (simp add: HEADWAY_MIN_transportService_def TRIP_DURATION_MIN_def coords_placeVehicle)
  ultimately show ?thesis
    using a unfolding p by (simp add: pointAt_antipodal)
qed

theorem positions_periodic_witness:
  "advancedBy TRIP_MIN beforeSummerTime summerTime60
   \<and> localTZA summerTime60 = localTZA beforeSummerTime + 1 * \<lfloor>TRIP_MIN * 60000\<rfloor>
   \<and> map coords (generateSimulatedVehiclesForRoute_MapScreen epochDate route15 [(0, 0), (0, 180)]
                   (Some summerTime60))
       = map coords (generateSimulatedVehiclesForRoute_MapScreen epochDate route15 [(0, 0), (0, 180)]
                       (Some beforeSummerTime))
   \<and> advancedBy TRIP_DURATION_MIN epochDate \<lparr> timeValue = Some 2700000, localTZA = 0 \<rparr>
   \<and> map coords (generateSimulatedVehiclesForRoute_transportService route15 [(0, 0), (0, 180)]
                   \<lparr> timeValue = Some 2700000, localTZA = 0 \<rparr>)
       = map coords (generateSimulatedVehiclesForRoute_transportService route15 [(0, 0), (0, 180)]
                       epochDate)"
proof -
  have a1: "advancedBy TRIP_MIN beforeSummerTime summerTime60"
    by (simp add: advancedBy_def beforeSummerTime_def summerTime60_def TRIP_MIN_def)
  have z1: "localTZA summerTime60 = localTZA beforeSummerTime + 1 * \<lfloor>TRIP_MIN * 60000\<rfloor>"
    by (simp add: beforeSummerTime_def summerTime60_def TRIP_MIN_def)
  have a2: "advancedBy TRIP_DURATION_MIN epochDate \<lparr> timeValue = Some 2700000, localTZA = 0 \<rparr>"
    by (simp add: advancedBy_def epochDate_def TRIP_DURATION_MIN_def)
  have z2: "localTZA \<lparr> timeValue = Some 2700000, localTZA = 0 \<rparr>
      = localTZA epochDate + 0 * \<lfloor>TRIP_DURATION_MIN * 60000\<rfloor>"
    by (simp add: epochDate_def)
  from positions_periodic [of beforeSummerTime summerTime60 1 0 epochDate route15 "[(0, 0), (0, 180)]"]
    positions_periodic [of epochDate "\<lparr> timeValue = Some 2700000, localTZA = 0 \<rparr>" 0 0 epochDate
      route15 "[(0, 0), (0, 180)]"] a1 z1 a2 z2
  show ?thesis by blast
qed

section \<open>Sampling with the computed distances\<close>













lemma interpolated_inBoundingBox:
  assumes "k + 1 < length sh" "0 \<le> s" "s \<le> 1"
  shows "inBoundingBox sh (interpolated sh k (Fin s))"
proof -
  have m1: "sh ! k \<in> set sh" and m2: "sh ! (k + 1) \<in> set sh" using assms(1) by simp_all
  have la: "Min (fst ` set sh) \<le> fst (sh ! k)" "fst (sh ! k) \<le> Max (fst ` set sh)"
    "Min (fst ` set sh) \<le> fst (sh ! (k + 1))" "fst (sh ! (k + 1)) \<le> Max (fst ` set sh)"
    using m1 m2 by (simp_all only: Min_le Max_ge finite_imageI finite_set imageI)
  have lo: "Min (snd ` set sh) \<le> snd (sh ! k)" "snd (sh ! k) \<le> Max (snd ` set sh)"
    "Min (snd ` set sh) \<le> snd (sh ! (k + 1))" "snd (sh ! (k + 1)) \<le> Max (snd ` set sh)"
    using m1 m2 by (simp_all only: Min_le Max_ge finite_imageI finite_set imageI)
  from between_endpoints [OF assms(2,3) la] between_endpoints [OF assms(2,3) lo]
  show ?thesis by (simp add: inBoundingBox_def interpolated_def)
qed










end
